theory Spec2Isabelle
  imports Main "HOL-Library.Sublist"
begin

section \<open>Python values used by the Telegram backend\<close>

text \<open>
  The module \<^verbatim>\<open>alerts/service_backends/telegram.py\<close> composes a text, posts it to the
  Telegram bot API with \<^verbatim>\<open>requests\<close>, classifies the answer and writes the outcome on
  the \<^verbatim>\<open>MessagingServiceConfig\<close> row of the channel.

  A Python \<^verbatim>\<open>str\<close> is a sequence of code points and \<^verbatim>\<open>len\<close> counts code points, so a
  string is modelled as a list of code points (natural numbers), not as a list of bytes.
  \<open>ascii\<close> embeds the literals of the source.
\<close>

type_synonym pystr = "nat list"

definition ascii :: "string \<Rightarrow> pystr" where
  "ascii s = map of_char s"

text \<open>
  The slice \<^verbatim>\<open>xs[:k]\<close>: the first \<open>k\<close> elements, and for a negative \<open>k\<close> all but the
  last \<open>-k\<close> elements. A slice never raises.
\<close>

definition py_slice_to :: "'a list \<Rightarrow> int \<Rightarrow> 'a list" where
  "py_slice_to xs k =
     (if 0 \<le> k then take (nat k) xs else take (length xs - nat (- k)) xs)"

text \<open>\<^verbatim>\<open>sep.join(lines)\<close>.\<close>

fun join :: "pystr \<Rightarrow> pystr list \<Rightarrow> pystr" where
  "join sep [] = []"
| "join sep [x] = x"
| "join sep (x # y # ys) = x @ sep @ join sep (y # ys)"

text \<open>\<^verbatim>\<open>str(n)\<close> of an integer: its decimal digits, with a minus sign when negative.\<close>

fun digits :: "nat \<Rightarrow> pystr" where
  "digits n = (if n < 10 then [48 + n] else digits (n div 10) @ [48 + n mod 10])"

declare digits.simps [simp del]

definition str_int :: "int \<Rightarrow> pystr" where
  "str_int i = (if i < 0 then 45 # digits (nat (- i)) else digits (nat i))"

text \<open>
  The values that decoding a JSON document yields: \<^verbatim>\<open>None\<close>, \<^verbatim>\<open>bool\<close>, \<^verbatim>\<open>int\<close>,
  \<^verbatim>\<open>float\<close> (kept as the literal it was read from, no claim computes with it), \<^verbatim>\<open>str\<close>,
  \<^verbatim>\<open>list\<close> and \<^verbatim>\<open>dict\<close> (its items; a key is looked up with \<open>map_of\<close>).
\<close>

datatype json =
    JNull
  | JBool bool
  | JInt int
  | JFloat pystr
  | JStr pystr
  | JArr "json list"
  | JObj "(pystr \<times> json) list"

text \<open>\<^verbatim>\<open>type(v).__name__\<close> of a decoded value.\<close>

fun py_type_name :: "json \<Rightarrow> pystr" where
  "py_type_name JNull = ascii ''NoneType''"
| "py_type_name (JBool b) = ascii ''bool''"
| "py_type_name (JInt i) = ascii ''int''"
| "py_type_name (JFloat f) = ascii ''float''"
| "py_type_name (JStr s) = ascii ''str''"
| "py_type_name (JArr xs) = ascii ''list''"
| "py_type_name (JObj kvs) = ascii ''dict''"

section \<open>The HTTP response and the exceptions\<close>

text \<open>
  What decoding a JSON text does: it returns a value, it raises \<^verbatim>\<open>ValueError\<close> (of which
  \<^verbatim>\<open>json.JSONDecodeError\<close> and the \<^verbatim>\<open>JSONDecodeError\<close> of requests are subclasses), or it
  raises another exception, given by its class name and its \<^verbatim>\<open>str\<close> (a
  \<^verbatim>\<open>RecursionError\<close> on a deeply nested text, for instance).
\<close>

datatype json_outcome =
    Returns json
  | RaisesValueError
  | Raises pystr pystr

text \<open>
  A \<^verbatim>\<open>requests.Response\<close>: \<open>status_code\<close>, \<open>reason\<close> (the reason phrase of the status
  line) and \<open>url\<close> are its attributes of the same names, \<open>body_text\<close> is its attribute
  \<^verbatim>\<open>text\<close>, and \<open>json_method\<close> is what its method \<^verbatim>\<open>json()\<close> does.
\<close>

record response =
  status_code :: int
  reason :: pystr
  url :: pystr
  body_text :: pystr
  json_method :: json_outcome

text \<open>
  The instances of \<^verbatim>\<open>Exception\<close> that the module meets. \<open>RequestException name msg resp\<close>
  is an instance of \<^verbatim>\<open>requests.RequestException\<close> whose class is called \<open>name\<close>, whose
  \<^verbatim>\<open>str\<close> is \<open>msg\<close> and whose attribute \<^verbatim>\<open>response\<close> is \<open>resp\<close>; the two
  \<^verbatim>\<open>DoesNotExist\<close> classes are those of the two Django models; \<open>OtherException name msg\<close>
  is any other exception, with its class name and its \<^verbatim>\<open>str\<close>.
\<close>

datatype exn =
    RequestException pystr pystr "response option"
  | MessagingServiceConfig_DoesNotExist
  | Issue_DoesNotExist
  | OtherException pystr pystr

text \<open>\<^verbatim>\<open>type(exception).__name__\<close> and \<^verbatim>\<open>str(exception)\<close>.\<close>

fun exn_type_name :: "exn \<Rightarrow> pystr" where
  "exn_type_name (RequestException name msg resp) = name"
| "exn_type_name MessagingServiceConfig_DoesNotExist = ascii ''DoesNotExist''"
| "exn_type_name Issue_DoesNotExist = ascii ''DoesNotExist''"
| "exn_type_name (OtherException name msg) = name"

fun exn_str :: "exn \<Rightarrow> pystr" where
  "exn_str (RequestException name msg resp) = msg"
| "exn_str MessagingServiceConfig_DoesNotExist =
     ascii ''MessagingServiceConfig matching query does not exist.''"
| "exn_str Issue_DoesNotExist = ascii ''Issue matching query does not exist.''"
| "exn_str (OtherException name msg) = msg"

text \<open>
  \<^verbatim>\<open>Response.raise_for_status()\<close> of the requests library: it raises \<^verbatim>\<open>HTTPError\<close>, with
  the response attached, for a status from 400 to 599, and returns for every other status.
  The message is \<^verbatim>\<open>"{status_code} Client Error: {reason} for url: {url}"\<close> below 500 and
  the same with \<^verbatim>\<open>Server Error\<close> from 500 on.
\<close>

definition raise_for_status :: "response \<Rightarrow> exn + unit" where
  "raise_for_status r =
     (if 400 \<le> status_code r \<and> status_code r < 500 then
        Inl (RequestException (ascii ''HTTPError'')
              (str_int (status_code r) @ ascii '' Client Error: '' @ reason r
                 @ ascii '' for url: '' @ url r)
              (Some r))
      else if 500 \<le> status_code r \<and> status_code r < 600 then
        Inl (RequestException (ascii ''HTTPError'')
              (str_int (status_code r) @ ascii '' Server Error: '' @ reason r
                 @ ascii '' for url: '' @ url r)
              (Some r))
      else Inr ())"

text \<open>
  \<^verbatim>\<open>v.get(key, default)\<close>: a \<^verbatim>\<open>dict\<close> answers with the value of the key or with the
  default; no other decoded value has the attribute, and the call raises
  \<^verbatim>\<open>AttributeError\<close> with the text \<^verbatim>\<open>'list' object has no attribute 'get'\<close> (for a
  list; the quote is code point 39).
\<close>

definition json_get :: "json \<Rightarrow> pystr \<Rightarrow> json \<Rightarrow> exn + json" where
  "json_get v key dflt =
     (case v of
        JObj kvs \<Rightarrow> Inr (case map_of kvs key of None \<Rightarrow> dflt | Some x \<Rightarrow> x)
      | _ \<Rightarrow> Inl (OtherException (ascii ''AttributeError'')
                 ([39] @ py_type_name v @ [39] @ ascii '' object has no attribute ''
                    @ [39] @ ascii ''get'' @ [39])))"

section \<open>The environment of a delivery attempt\<close>

type_synonym timestamp = int

text \<open>The JSON body of the request: the keys \<^verbatim>\<open>chat_id\<close>, \<^verbatim>\<open>text\<close> and
  \<^verbatim>\<open>disable_web_page_preview\<close>.\<close>

record payload =
  chat_id :: pystr
  message_text :: pystr
  disable_web_page_preview :: bool

text \<open>
  The row of \<^verbatim>\<open>MessagingServiceConfig\<close>: the serialized \<open>config\<close> and the six
  failure-tracking columns, each nullable.
\<close>

record messaging_service_config =
  config :: pystr
  last_failure_timestamp :: "timestamp option"
  last_failure_error_type :: "pystr option"
  last_failure_error_message :: "pystr option"
  last_failure_status_code :: "int option"
  last_failure_response_text :: "pystr option"
  last_failure_is_json :: "bool option"

text \<open>
  What the module takes from outside, fixed for one attempt:
  \<^item> \<open>now\<close>, the clock \<^verbatim>\<open>timezone.now()\<close>;
  \<^item> \<open>json_loads\<close>, what \<^verbatim>\<open>json.loads\<close> does on a text;
  \<^item> \<open>py_repr\<close>, \<^verbatim>\<open>repr\<close> of a decoded value that is not a string;
  \<^item> \<open>requests_post\<close>, the network: \<^verbatim>\<open>requests.post(url, json=payload, timeout=t)\<close>
    raises or returns a response;
  \<^item> \<open>save_error\<close>, the database on \<^verbatim>\<open>config.save()\<close>: \<open>None\<close> when it takes the row,
    and the class name and \<^verbatim>\<open>str\<close> of the exception when it refuses it (a text that
    cannot be encoded, a locked database); \<^verbatim>\<open>save\<close> does not raise \<^verbatim>\<open>DoesNotExist\<close>;
  \<^item> \<open>truncatechars\<close>, Django's filter, and \<open>BASE_URL\<close>, the attribute of
    \<^verbatim>\<open>get_settings()\<close>: each returns a string or raises.
\<close>

record env =
  now :: timestamp
  json_loads :: "pystr \<Rightarrow> json_outcome"
  py_repr :: "json \<Rightarrow> pystr"
  requests_post :: "pystr \<Rightarrow> payload \<Rightarrow> nat \<Rightarrow> exn + response"
  save_error :: "messaging_service_config \<Rightarrow> (pystr \<times> pystr) option"
  truncatechars :: "pystr \<Rightarrow> nat \<Rightarrow> exn + pystr"
  BASE_URL :: "exn + pystr"

text \<open>\<^verbatim>\<open>str(v)\<close> of a decoded value: a string is itself, every other value is its
  \<^verbatim>\<open>repr\<close>.\<close>

definition py_str :: "env \<Rightarrow> json \<Rightarrow> pystr" where
  "py_str e v = (case v of JStr s \<Rightarrow> s | _ \<Rightarrow> py_repr e v)"

section \<open>The persisted state\<close>

text \<open>
  Modelled from the spec: \<^verbatim>\<open>MessagingServiceConfig.clear_failure_status()\<close> is defined in
  \<^verbatim>\<open>alerts/models.py\<close>, which is not among the sources. The spec says of the success
  path: "clear all failure fields together".
\<close>

definition clear_failure_status :: "messaging_service_config \<Rightarrow> messaging_service_config" where
  "clear_failure_status c =
     c\<lparr>last_failure_timestamp := None,
       last_failure_error_type := None,
       last_failure_error_message := None,
       last_failure_status_code := None,
       last_failure_response_text := None,
       last_failure_is_json := None\<rparr>"

text \<open>
  What the alert reads of an \<^verbatim>\<open>Issue\<close>: \<^verbatim>\<open>issue.title()\<close>, \<^verbatim>\<open>issue.project.name\<close> and
  \<^verbatim>\<open>issue.get_absolute_url()\<close>. Their code is not among the sources: each is taken as
  what the call does, returning a string or raising.
\<close>

record issue =
  issue_title :: "exn + pystr"
  issue_project_name :: "exn + pystr"
  issue_absolute_url :: "exn + pystr"

text \<open>A request that was handed to \<^verbatim>\<open>requests.post\<close>.\<close>

record request =
  req_url :: pystr
  req_json :: payload
  req_timeout :: nat

text \<open>
  The state an attempt works on: the two tables, keyed by \<^verbatim>\<open>id\<close>, and the requests
  posted so far. An operation ends with the exception it raised, if any, and the state it
  leaves.
\<close>

record world =
  MessagingServiceConfig_objects :: "nat \<rightharpoonup> messaging_service_config"
  Issue_objects :: "nat \<rightharpoonup> issue"
  outbox :: "request list"

type_synonym outcome = "exn option \<times> world"

text \<open>\<^verbatim>\<open>Model.objects.get(id=...)\<close> raises \<^verbatim>\<open>DoesNotExist\<close> when no row has the id.\<close>

definition MessagingServiceConfig_get :: "world \<Rightarrow> nat \<Rightarrow> exn + messaging_service_config" where
  "MessagingServiceConfig_get w i =
     (case MessagingServiceConfig_objects w i of
        None \<Rightarrow> Inl MessagingServiceConfig_DoesNotExist
      | Some c \<Rightarrow> Inr c)"

definition Issue_get :: "world \<Rightarrow> nat \<Rightarrow> exn + issue" where
  "Issue_get w i =
     (case Issue_objects w i of None \<Rightarrow> Inl Issue_DoesNotExist | Some x \<Rightarrow> Inr x)"

text \<open>
  \<^verbatim>\<open>config.save()\<close> writes the row back under its id, or raises and writes nothing.
\<close>

definition save :: "env \<Rightarrow> world \<Rightarrow> nat \<Rightarrow> messaging_service_config \<Rightarrow> exn + world" where
  "save e w i c =
     (case save_error e c of
        Some (name, msg) \<Rightarrow> Inl (OtherException name msg)
      | None \<Rightarrow>
          Inr (w\<lparr>MessagingServiceConfig_objects := (MessagingServiceConfig_objects w)(i \<mapsto> c)\<rparr>))"

section \<open>The delivery state store\<close>

text \<open>
  Both store functions have the shape
  \<^verbatim>\<open>with immediate_atomic(only_if_needed=True): try: ... except MessagingServiceConfig.DoesNotExist: pass\<close>.
  The body starts in the state \<open>w\<close>; \<^verbatim>\<open>save\<close> is its only write and its last step, so
  a body that raises leaves \<open>w\<close>. \<^verbatim>\<open>DoesNotExist\<close> is swallowed, every other exception
  goes on to the caller.
\<close>

definition except_DoesNotExist :: "world \<Rightarrow> exn + world \<Rightarrow> outcome" where
  "except_DoesNotExist w body =
     (case body of
        Inr w' \<Rightarrow> (None, w')
      | Inl err \<Rightarrow>
          (if err = MessagingServiceConfig_DoesNotExist then (None, w) else (Some err, w)))"

text \<open>
  \<^verbatim>\<open>_store_failure_info(service_config_id, exception, response=None)\<close>. The handler
  \<^verbatim>\<open>except (json.JSONDecodeError, ValueError)\<close> around \<^verbatim>\<open>json.loads\<close> catches
  \<^verbatim>\<open>ValueError\<close> alone.
\<close>

definition store_failure_info ::
  "env \<Rightarrow> nat \<Rightarrow> exn \<Rightarrow> response option \<Rightarrow> world \<Rightarrow> outcome" where
  "store_failure_info e service_config_id exception resp w =
     except_DoesNotExist w
       (case MessagingServiceConfig_get w service_config_id of
          Inl err \<Rightarrow> Inl err
        | Inr c0 \<Rightarrow>
            (let c1 = c0\<lparr>last_failure_timestamp := Some (now e),
                        last_failure_error_type := Some (exn_type_name exception),
                        last_failure_error_message := Some (exn_str exception)\<rparr>
             in case resp of
                  Some r \<Rightarrow>
                    (let c2 = c1\<lparr>last_failure_status_code := Some (status_code r),
                                 last_failure_response_text := Some (take 2000 (body_text r))\<rparr>
                     in case json_loads e (body_text r) of
                          Returns v \<Rightarrow>
                            save e w service_config_id (c2\<lparr>last_failure_is_json := Some True\<rparr>)
                        | RaisesValueError \<Rightarrow>
                            save e w service_config_id (c2\<lparr>last_failure_is_json := Some False\<rparr>)
                        | Raises name msg \<Rightarrow> Inl (OtherException name msg))
                | None \<Rightarrow>
                    save e w service_config_id
                      (c1\<lparr>last_failure_status_code := None,
                          last_failure_response_text := None,
                          last_failure_is_json := None\<rparr>)))"

text \<open>Whether a decoding returned a value.\<close>

fun decodes :: "json_outcome \<Rightarrow> bool" where
  "decodes (Returns v) = True"
| "decodes RaisesValueError = False"
| "decodes (Raises name msg) = False"

text \<open>\<^verbatim>\<open>_store_success_info(service_config_id)\<close>.\<close>

definition store_success_info :: "env \<Rightarrow> nat \<Rightarrow> world \<Rightarrow> outcome" where
  "store_success_info e service_config_id w =
     except_DoesNotExist w
       (case MessagingServiceConfig_get w service_config_id of
          Inl err \<Rightarrow> Inl err
        | Inr c0 \<Rightarrow> save e w service_config_id (clear_failure_status c0))"

section \<open>The delivery executor\<close>

text \<open>The endpoint: \<^verbatim>\<open>f"https://api.telegram.org/bot{bot_token}/sendMessage"\<close>.\<close>

definition sendMessage_url :: "pystr \<Rightarrow> pystr" where
  "sendMessage_url bot_token =
     ascii ''https://api.telegram.org/bot'' @ bot_token @ ascii ''/sendMessage''"

text \<open>
  \<^verbatim>\<open>requests.post(url, json=payload, timeout=5)\<close>: the request goes out, and the network
  answers with an exception or a response.
\<close>

definition http_post ::
  "env \<Rightarrow> pystr \<Rightarrow> payload \<Rightarrow> nat \<Rightarrow> world \<Rightarrow> (exn + response) \<times> world" where
  "http_post e target pl t w =
     (requests_post e target pl t,
      w\<lparr>outbox := outbox w @ [\<lparr>req_url = target, req_json = pl, req_timeout = t\<rparr>]\<rparr>)"

text \<open>
  \<^verbatim>\<open>_send_telegram_message(bot_token, payload, service_config_id)\<close>, in two parts. The
  first is the body of the \<^verbatim>\<open>try\<close>. \<^verbatim>\<open>result.json()\<close> is called before the status is
  looked at, and \<^verbatim>\<open>except ValueError\<close> is its only handler: any other exception it raises
  leaves the body. \<open>response_data\<close> is \<^verbatim>\<open>None\<close> both when \<^verbatim>\<open>result.json()\<close> raised
  \<^verbatim>\<open>ValueError\<close> and when it returned \<^verbatim>\<open>None\<close>; \<^verbatim>\<open>x is False\<close> holds of the value
  \<^verbatim>\<open>False\<close> alone.
\<close>

definition send_telegram_message_try ::
  "env \<Rightarrow> pystr \<Rightarrow> payload \<Rightarrow> nat \<Rightarrow> world \<Rightarrow> outcome" where
  "send_telegram_message_try e bot_token pl service_config_id w =
     (let (answer, w1) = http_post e (sendMessage_url bot_token) pl 5 w
      in case answer of
           Inl err \<Rightarrow> (Some err, w1)
         | Inr result \<Rightarrow>
             (case json_method result of
                Raises name msg \<Rightarrow> (Some (OtherException name msg), w1)
              | decoded \<Rightarrow>
                  (let response_data =
                         (case decoded of Returns v \<Rightarrow> v | _ \<Rightarrow> JNull)
                   in case (if status_code result \<ge> 400 then raise_for_status result
                            else Inr ()) of
                        Inl err \<Rightarrow> (Some err, w1)
                      | Inr u \<Rightarrow>
                          (if response_data \<noteq> JNull then
                             (case json_get response_data (ascii ''ok'') JNull of
                                Inl err \<Rightarrow> (Some err, w1)
                              | Inr ok \<Rightarrow>
                                  (if ok = JBool False then
                                     (case json_get response_data (ascii ''description'')
                                             (JStr (ascii ''Telegram API error'')) of
                                        Inl err \<Rightarrow> (Some err, w1)
                                      | Inr d \<Rightarrow>
                                          (Some (RequestException (ascii ''HTTPError'')
                                                  (py_str e d) (Some result)), w1))
                                   else store_success_info e service_config_id w1))
                           else store_success_info e service_config_id w1))))"

text \<open>
  The second part is the two handlers, \<^verbatim>\<open>except requests.RequestException\<close> first, then
  \<^verbatim>\<open>except Exception\<close>. They run in the state the body left; the attribute
  \<^verbatim>\<open>response\<close> of a \<^verbatim>\<open>RequestException\<close> is passed on, any other exception is recorded
  without a response. No handler guards the handlers: what \<^verbatim>\<open>_store_failure_info\<close>
  raises leaves the function.
\<close>

definition send_telegram_message ::
  "env \<Rightarrow> pystr \<Rightarrow> payload \<Rightarrow> nat \<Rightarrow> world \<Rightarrow> outcome" where
  "send_telegram_message e bot_token pl service_config_id w =
     (case send_telegram_message_try e bot_token pl service_config_id w of
        (None, w2) \<Rightarrow> (None, w2)
      | (Some (RequestException name msg resp), w2) \<Rightarrow>
          store_failure_info e service_config_id (RequestException name msg resp) resp w2
      | (Some err, w2) \<Rightarrow> store_failure_info e service_config_id err None w2)"

section \<open>The message composer and the two tasks\<close>

text \<open>\<^verbatim>\<open>_truncate_message(text, max_length=4000)\<close>.\<close>

definition truncate_message :: "pystr \<Rightarrow> int \<Rightarrow> pystr" where
  "truncate_message txt max_length =
     (if int (length txt) \<le> max_length then txt
      else py_slice_to txt (max_length - 3) @ ascii ''...'')"

text \<open>
  \<^verbatim>\<open>telegram_backend_send_test_message(bot_token, chat_id, project_name, display_name,
  service_config_id)\<close>; the lines are joined with a line feed (code point 10).
\<close>

definition telegram_backend_send_test_message ::
  "env \<Rightarrow> pystr \<Rightarrow> pystr \<Rightarrow> pystr \<Rightarrow> pystr \<Rightarrow> nat \<Rightarrow> world \<Rightarrow> outcome" where
  "telegram_backend_send_test_message e bot_token chat project_name display_name
       service_config_id w =
     (let lines = [ascii ''Test message by Bugsink to test the Telegram bot setup.'',
                   ascii ''Project: '' @ project_name,
                   ascii ''Message backend: '' @ display_name];
          pl = \<lparr>chat_id = chat,
                message_text = truncate_message (join [10] lines) 4000,
                disable_web_page_preview = True\<rparr>
      in send_telegram_message e bot_token pl service_config_id w)"

text \<open>
  The text of an alert, lines 147 to 160 of the module, in the order in which the source
  evaluates: \<^verbatim>\<open>get_settings().BASE_URL\<close>, \<^verbatim>\<open>issue.get_absolute_url()\<close>,
  \<^verbatim>\<open>issue.title()\<close>, \<^verbatim>\<open>truncatechars\<close>, \<^verbatim>\<open>issue.project.name\<close>. The first call that
  raises ends the composition. \<^verbatim>\<open>if unmute_reason\<close> holds of a string that is not empty.
\<close>

definition alert_text :: "env \<Rightarrow> issue \<Rightarrow> pystr \<Rightarrow> pystr option \<Rightarrow> exn + pystr" where
  "alert_text e iss alert_reason unmute_reason =
     (case BASE_URL e of
        Inl err \<Rightarrow> Inl err
      | Inr base \<Rightarrow>
     (case issue_absolute_url iss of
        Inl err \<Rightarrow> Inl err
      | Inr path \<Rightarrow>
     (case issue_title iss of
        Inl err \<Rightarrow> Inl err
      | Inr title \<Rightarrow>
     (case truncatechars e title 200 of
        Inl err \<Rightarrow> Inl err
      | Inr short_title \<Rightarrow>
     (case issue_project_name iss of
        Inl err \<Rightarrow> Inl err
      | Inr project \<Rightarrow>
          (let issue_url = base @ path;
               lines0 = [alert_reason @ ascii '' issue'',
                         ascii ''Issue: '' @ short_title,
                         ascii ''Project: '' @ project,
                         ascii ''URL: '' @ issue_url];
               lines = (case unmute_reason of
                          None \<Rightarrow> lines0
                        | Some r \<Rightarrow>
                            (if r \<noteq> [] then lines0 @ [ascii ''Unmute reason: '' @ r]
                             else lines0))
           in Inr (truncate_message (join [10] lines) 4000)))))))"

text \<open>
  \<^verbatim>\<open>telegram_backend_send_alert(bot_token, chat_id, issue_id, state_description,
  alert_article, alert_reason, service_config_id, unmute_reason=None)\<close>. The issue is
  fetched and the text composed before \<^verbatim>\<open>_send_telegram_message\<close> is called, outside
  every handler.
\<close>

definition telegram_backend_send_alert ::
  "env \<Rightarrow> pystr \<Rightarrow> pystr \<Rightarrow> nat \<Rightarrow> pystr \<Rightarrow> pystr \<Rightarrow> pystr \<Rightarrow> nat \<Rightarrow> pystr option
     \<Rightarrow> world \<Rightarrow> outcome" where
  "telegram_backend_send_alert e bot_token chat issue_id state_description alert_article
       alert_reason service_config_id unmute_reason w =
     (case Issue_get w issue_id of
        Inl err \<Rightarrow> (Some err, w)
      | Inr iss \<Rightarrow>
          (case alert_text e iss alert_reason unmute_reason of
             Inl err \<Rightarrow> (Some err, w)
           | Inr composed \<Rightarrow>
               send_telegram_message e bot_token
                 \<lparr>chat_id = chat, message_text = composed, disable_web_page_preview = True\<rparr>
                 service_config_id w))"

section \<open>Observing an outcome, and a concrete setting\<close>

text \<open>The row of a channel in the state that an operation leaves.\<close>

definition config_after :: "outcome \<Rightarrow> nat \<Rightarrow> messaging_service_config option" where
  "config_after res i = MessagingServiceConfig_objects (snd res) i"

text \<open>The state in which \<^verbatim>\<open>_send_telegram_message\<close> goes on after \<^verbatim>\<open>requests.post\<close>.\<close>

abbreviation (input) posted :: "env \<Rightarrow> pystr \<Rightarrow> payload \<Rightarrow> world \<Rightarrow> world" where
  "posted e tok pl w \<equiv> snd (http_post e (sendMessage_url tok) pl 5 w)"

text \<open>
  A concrete setting for running the definitions: one channel with id 1 and no failure on
  record, a sound issue with id 7 and a broken one with id 9, a clock, a decoder that knows the bodies below, a network
  whose answer is given, and a database that refuses a row holding a surrogate code point
  (\<open>0xD800\<close> to \<open>0xDFFF\<close>) in a text column, as encoding to UTF-8 does.
\<close>

definition demo_config :: messaging_service_config where
  "demo_config =
     \<lparr>config = ascii ''bot_token=TOKEN; chat_id=42'',
      last_failure_timestamp = None,
      last_failure_error_type = None,
      last_failure_error_message = None,
      last_failure_status_code = None,
      last_failure_response_text = None,
      last_failure_is_json = None\<rparr>"

definition demo_failed_config :: messaging_service_config where
  "demo_failed_config =
     \<lparr>config = ascii ''bot_token=TOKEN; chat_id=42'',
      last_failure_timestamp = Some 1600000000,
      last_failure_error_type = Some (ascii ''ReadTimeout''),
      last_failure_error_message = Some (ascii ''Read timed out. (read timeout=5)''),
      last_failure_status_code = None,
      last_failure_response_text = None,
      last_failure_is_json = None\<rparr>"

definition demo_issue :: issue where
  "demo_issue =
     \<lparr>issue_title = Inr (ascii ''ValueError: bad input''),
      issue_project_name = Inr (ascii ''Acme''),
      issue_absolute_url = Inr (ascii ''/issues/issue/7/'')\<rparr>"

text \<open>An issue whose project cannot be read.\<close>

definition demo_broken_issue :: issue where
  "demo_broken_issue =
     demo_issue\<lparr>issue_project_name :=
       Inl (OtherException (ascii ''DoesNotExist'')
             (ascii ''Project matching query does not exist.''))\<rparr>"

definition demo_world :: world where
  "demo_world =
     \<lparr>MessagingServiceConfig_objects = [1 \<mapsto> demo_config],
      Issue_objects = [7 \<mapsto> demo_issue, 9 \<mapsto> demo_broken_issue],
      outbox = []\<rparr>"

definition demo_failed_world :: world where
  "demo_failed_world =
     \<lparr>MessagingServiceConfig_objects = [1 \<mapsto> demo_failed_config],
      Issue_objects = [7 \<mapsto> demo_issue, 9 \<mapsto> demo_broken_issue],
      outbox = []\<rparr>"

definition body_unauthorized :: pystr where
  \<open>body_unauthorized = ascii ''{"ok": false, "description": "Unauthorized"}''\<close>

definition json_unauthorized :: json where
  "json_unauthorized =
     JObj [(ascii ''ok'', JBool False), (ascii ''description'', JStr (ascii ''Unauthorized''))]"

definition body_chat_not_found :: pystr where
  \<open>body_chat_not_found = ascii ''{"ok": false, "description": "chat not found"}''\<close>

definition json_chat_not_found :: json where
  "json_chat_not_found =
     JObj [(ascii ''ok'', JBool False), (ascii ''description'', JStr (ascii ''chat not found''))]"

text \<open>
  The description of this body is the JSON escape of \<open>0xD800\<close>: a backslash (code point
  92), then \<^verbatim>\<open>ud800\<close>. It decodes to the lone surrogate, the code point 55296.
\<close>

definition body_surrogate :: pystr where
  \<open>body_surrogate =
     ascii ''{"ok": false, "description": "'' @ [92] @ ascii ''ud800"}''\<close>

definition json_surrogate :: json where
  "json_surrogate =
     JObj [(ascii ''ok'', JBool False), (ascii ''description'', JStr [55296])]"

definition demo_loads :: "pystr \<Rightarrow> json_outcome" where
  \<open>demo_loads s =
     (if s = body_unauthorized then Returns json_unauthorized
      else if s = body_chat_not_found then Returns json_chat_not_found
      else if s = body_surrogate then Returns json_surrogate
      else if s = ascii ''{}'' then Returns (JObj [])
      else if s = ascii ''{"ok": 0}'' then Returns (JObj [(ascii ''ok'', JInt 0)])
      else if s = ascii ''[1]'' then Returns (JArr [JInt 1])
      else RaisesValueError)\<close>

definition surrogate :: "nat \<Rightarrow> bool" where
  "surrogate c = (55296 \<le> c \<and> c \<le> 57343)"

definition unencodable :: "pystr option \<Rightarrow> bool" where
  "unencodable s = (case s of None \<Rightarrow> False | Some cs \<Rightarrow> list_ex surrogate cs)"

definition demo_save_error :: "messaging_service_config \<Rightarrow> (pystr \<times> pystr) option" where
  "demo_save_error c =
     (if unencodable (Some (config c)) \<or> unencodable (last_failure_error_type c)
         \<or> unencodable (last_failure_error_message c)
         \<or> unencodable (last_failure_response_text c)
      then Some (ascii ''UnicodeEncodeError'', ascii ''surrogates not allowed'')
      else None)"

definition demo_truncatechars :: "pystr \<Rightarrow> nat \<Rightarrow> exn + pystr" where
  "demo_truncatechars s n = Inr (if length s \<le> n then s else take (n - 1) s @ [8230])"

definition demo_env :: "(exn + response) \<Rightarrow> env" where
  "demo_env answer =
     \<lparr>now = 1700000000,
      json_loads = demo_loads,
      py_repr = (\<lambda>v. ascii ''?''),
      requests_post = (\<lambda>target pl t. answer),
      save_error = demo_save_error,
      truncatechars = demo_truncatechars,
      BASE_URL = Inr (ascii ''https://bugsink.example.org'')\<rparr>"

definition demo_timeout :: exn where
  "demo_timeout =
     RequestException (ascii ''ReadTimeout'') (ascii ''Read timed out. (read timeout=5)'') None"

definition demo_payload :: payload where
  "demo_payload =
     \<lparr>chat_id = ascii ''42'', message_text = ascii ''hello'', disable_web_page_preview = True\<rparr>"

definition demo_response_401 :: response where
  "demo_response_401 =
     \<lparr>status_code = 401,
      reason = ascii ''Unauthorized'',
      url = sendMessage_url (ascii ''TOKEN''),
      body_text = body_unauthorized,
      json_method = Returns json_unauthorized\<rparr>"

definition demo_response_401_bare :: response where
  "demo_response_401_bare = demo_response_401\<lparr>reason := []\<rparr>"

definition demo_response_600 :: response where
  "demo_response_600 =
     \<lparr>status_code = 600,
      reason = [],
      url = sendMessage_url (ascii ''TOKEN''),
      body_text = ascii ''{}'',
      json_method = Returns (JObj [])\<rparr>"

definition demo_response_200_not_ok :: response where
  "demo_response_200_not_ok =
     \<lparr>status_code = 200,
      reason = ascii ''OK'',
      url = sendMessage_url (ascii ''TOKEN''),
      body_text = body_chat_not_found,
      json_method = Returns json_chat_not_found\<rparr>"

definition demo_response_200_surrogate :: response where
  "demo_response_200_surrogate =
     \<lparr>status_code = 200,
      reason = ascii ''OK'',
      url = sendMessage_url (ascii ''TOKEN''),
      body_text = body_surrogate,
      json_method = Returns json_surrogate\<rparr>"

definition demo_response_200_ok_zero :: response where
  \<open>demo_response_200_ok_zero =
     \<lparr>status_code = 200,
      reason = ascii ''OK'',
      url = sendMessage_url (ascii ''TOKEN''),
      body_text = ascii ''{"ok": 0}'',
      json_method = Returns (JObj [(ascii ''ok'', JInt 0)])\<rparr>\<close>

definition demo_response_200_list :: response where
  "demo_response_200_list =
     \<lparr>status_code = 200,
      reason = ascii ''OK'',
      url = sendMessage_url (ascii ''TOKEN''),
      body_text = ascii ''[1]'',
      json_method = Returns (JArr [JInt 1])\<rparr>"

text \<open>The same setting with a database that is locked and refuses every write.\<close>

definition demo_locked_env :: env where
  "demo_locked_env =
     (demo_env (Inl demo_timeout))
       \<lparr>save_error := (\<lambda>c. Some (ascii ''OperationalError'', ascii ''database is locked''))\<rparr>"

section \<open>What each operation computes\<close>

lemma posted_objects:
  "MessagingServiceConfig_objects (posted e tok pl w) = MessagingServiceConfig_objects w"
  by (simp add: http_post_def)

lemma posted_outbox:
  "outbox (posted e tok pl w) =
     outbox w @ [\<lparr>req_url = sendMessage_url tok, req_json = pl, req_timeout = 5\<rparr>]"
  by (simp add: http_post_def)

lemma store_failure_info_absent:
  "MessagingServiceConfig_objects w i = None \<Longrightarrow> store_failure_info e i x r w = (None, w)"
  by (simp add: store_failure_info_def MessagingServiceConfig_get_def except_DoesNotExist_def)

lemma store_success_info_absent:
  "MessagingServiceConfig_objects w i = None \<Longrightarrow> store_success_info e i w = (None, w)"
  by (simp add: store_success_info_def MessagingServiceConfig_get_def except_DoesNotExist_def)

lemma store_success_info_saved:
  "MessagingServiceConfig_objects w i = Some c \<Longrightarrow>
   save_error e (clear_failure_status c) = None \<Longrightarrow>
   store_success_info e i w =
     (None, w\<lparr>MessagingServiceConfig_objects :=
                (MessagingServiceConfig_objects w)(i \<mapsto> clear_failure_status c)\<rparr>)"
  by (simp add: store_success_info_def MessagingServiceConfig_get_def save_def
        except_DoesNotExist_def)

lemma store_success_info_refused:
  "MessagingServiceConfig_objects w i = Some c \<Longrightarrow>
   save_error e (clear_failure_status c) = Some (name, msg) \<Longrightarrow>
   store_success_info e i w = (Some (OtherException name msg), w)"
  by (simp add: store_success_info_def MessagingServiceConfig_get_def save_def
        except_DoesNotExist_def)

lemma store_failure_info_no_response_saved:
  "MessagingServiceConfig_objects w i = Some c \<Longrightarrow>
   row = c\<lparr>last_failure_timestamp := Some (now e),
           last_failure_error_type := Some (exn_type_name x),
           last_failure_error_message := Some (exn_str x),
           last_failure_status_code := None,
           last_failure_response_text := None,
           last_failure_is_json := None\<rparr> \<Longrightarrow>
   save_error e row = None \<Longrightarrow>
   store_failure_info e i x None w =
     (None, w\<lparr>MessagingServiceConfig_objects := (MessagingServiceConfig_objects w)(i \<mapsto> row)\<rparr>)"
  by (simp add: store_failure_info_def MessagingServiceConfig_get_def save_def
        except_DoesNotExist_def)

lemma store_failure_info_no_response_refused:
  "MessagingServiceConfig_objects w i = Some c \<Longrightarrow>
   row = c\<lparr>last_failure_timestamp := Some (now e),
           last_failure_error_type := Some (exn_type_name x),
           last_failure_error_message := Some (exn_str x),
           last_failure_status_code := None,
           last_failure_response_text := None,
           last_failure_is_json := None\<rparr> \<Longrightarrow>
   save_error e row = Some (name, msg) \<Longrightarrow>
   store_failure_info e i x None w = (Some (OtherException name msg), w)"
  by (simp add: store_failure_info_def MessagingServiceConfig_get_def save_def
        except_DoesNotExist_def)

lemma store_failure_info_response_saved:
  "MessagingServiceConfig_objects w i = Some c \<Longrightarrow>
   \<forall>name msg. json_loads e (body_text r) \<noteq> Raises name msg \<Longrightarrow>
   row = c\<lparr>last_failure_timestamp := Some (now e),
           last_failure_error_type := Some (exn_type_name x),
           last_failure_error_message := Some (exn_str x),
           last_failure_status_code := Some (status_code r),
           last_failure_response_text := Some (take 2000 (body_text r)),
           last_failure_is_json := Some (decodes (json_loads e (body_text r)))\<rparr> \<Longrightarrow>
   save_error e row = None \<Longrightarrow>
   store_failure_info e i x (Some r) w =
     (None, w\<lparr>MessagingServiceConfig_objects := (MessagingServiceConfig_objects w)(i \<mapsto> row)\<rparr>)"
  by (cases "json_loads e (body_text r)")
     (simp_all add: store_failure_info_def MessagingServiceConfig_get_def save_def
        except_DoesNotExist_def)

lemma store_failure_info_response_refused:
  "MessagingServiceConfig_objects w i = Some c \<Longrightarrow>
   \<forall>name msg. json_loads e (body_text r) \<noteq> Raises name msg \<Longrightarrow>
   row = c\<lparr>last_failure_timestamp := Some (now e),
           last_failure_error_type := Some (exn_type_name x),
           last_failure_error_message := Some (exn_str x),
           last_failure_status_code := Some (status_code r),
           last_failure_response_text := Some (take 2000 (body_text r)),
           last_failure_is_json := Some (decodes (json_loads e (body_text r)))\<rparr> \<Longrightarrow>
   save_error e row = Some (name, msg) \<Longrightarrow>
   store_failure_info e i x (Some r) w = (Some (OtherException name msg), w)"
  by (cases "json_loads e (body_text r)")
     (simp_all add: store_failure_info_def MessagingServiceConfig_get_def save_def
        except_DoesNotExist_def)

lemma store_failure_info_loads_raises:
  "MessagingServiceConfig_objects w i = Some c \<Longrightarrow>
   json_loads e (body_text r) = Raises name msg \<Longrightarrow>
   store_failure_info e i x (Some r) w = (Some (OtherException name msg), w)"
  by (simp add: store_failure_info_def MessagingServiceConfig_get_def except_DoesNotExist_def)

text \<open>
  An exception leaves a store function only from \<^verbatim>\<open>save\<close> or from \<^verbatim>\<open>json.loads\<close>, and
  the state is then as it was.
\<close>

lemma save_cases:
  "(\<exists>w'. save e w i c = Inr w' \<and> outbox w' = outbox w \<and> Issue_objects w' = Issue_objects w
         \<and> save_error e c = None)
   \<or> (\<exists>name msg. save e w i c = Inl (OtherException name msg) \<and> save_error e c = Some (name, msg))"
  by (cases "save_error e c") (auto simp add: save_def)

lemma except_DoesNotExist_save:
  "fst (except_DoesNotExist w (save e w i c)) = Some err \<Longrightarrow>
     (\<exists>name msg. save_error e c = Some (name, msg) \<and> err = OtherException name msg)"
  using save_cases [of e w i c] by (auto simp add: except_DoesNotExist_def)

lemma except_DoesNotExist_save_state:
  "outbox (snd (except_DoesNotExist w (save e w i c))) = outbox w \<and>
   Issue_objects (snd (except_DoesNotExist w (save e w i c))) = Issue_objects w \<and>
   (fst (except_DoesNotExist w (save e w i c)) \<noteq> None \<longrightarrow>
      snd (except_DoesNotExist w (save e w i c)) = w)"
  using save_cases [of e w i c] by (auto simp add: except_DoesNotExist_def)

lemma store_success_info_raises:
  assumes "fst (store_success_info e i w) = Some err"
  shows "\<exists>row name msg. save_error e row = Some (name, msg) \<and> err = OtherException name msg"
proof (cases "MessagingServiceConfig_objects w i")
  case None
  then show ?thesis using assms by (simp add: store_success_info_absent)
next
  case (Some c)
  then have "store_success_info e i w =
               except_DoesNotExist w (save e w i (clear_failure_status c))"
    by (simp add: store_success_info_def MessagingServiceConfig_get_def)
  then show ?thesis
    using assms except_DoesNotExist_save [of w e i "clear_failure_status c" err] by auto
qed

lemma store_success_info_state:
  "outbox (snd (store_success_info e i w)) = outbox w \<and>
   Issue_objects (snd (store_success_info e i w)) = Issue_objects w \<and>
   (fst (store_success_info e i w) \<noteq> None \<longrightarrow> snd (store_success_info e i w) = w)"
  using except_DoesNotExist_save_state [of w e i]
  by (cases "MessagingServiceConfig_objects w i")
     (simp_all add: store_success_info_def MessagingServiceConfig_get_def
        except_DoesNotExist_def)

lemma store_failure_info_raises:
  assumes "fst (store_failure_info e i x resp w) = Some err"
  shows "(\<exists>row name msg. save_error e row = Some (name, msg) \<and> err = OtherException name msg)
     \<or> (\<exists>txt name msg. json_loads e txt = Raises name msg \<and> err = OtherException name msg)"
proof (cases "MessagingServiceConfig_objects w i")
  case None
  then show ?thesis using assms by (simp add: store_failure_info_absent)
next
  case (Some c)
  have "(\<exists>row. store_failure_info e i x resp w = except_DoesNotExist w (save e w i row))
      \<or> (\<exists>r name msg. resp = Some r \<and> json_loads e (body_text r) = Raises name msg)"
  proof (cases resp)
    case None
    then show ?thesis
      using Some by (simp add: store_failure_info_def MessagingServiceConfig_get_def) blast
  next
    case r: (Some r)
    show ?thesis
    proof (cases "json_loads e (body_text r)")
      case (Raises name msg)
      then show ?thesis using r by blast
    next
      case (Returns v)
      then show ?thesis
        using Some r
        by (simp add: store_failure_info_def MessagingServiceConfig_get_def) blast
    next
      case RaisesValueError
      then show ?thesis
        using Some r
        by (simp add: store_failure_info_def MessagingServiceConfig_get_def) blast
    qed
  qed
  then show ?thesis
  proof
    assume "\<exists>row. store_failure_info e i x resp w = except_DoesNotExist w (save e w i row)"
    then obtain row where
      "store_failure_info e i x resp w = except_DoesNotExist w (save e w i row)" ..
    then show ?thesis
      using assms except_DoesNotExist_save [of w e i row err] by auto
  next
    assume "\<exists>r name msg. resp = Some r \<and> json_loads e (body_text r) = Raises name msg"
    then obtain r name msg where
      r: "resp = Some r" "json_loads e (body_text r) = Raises name msg" by blast
    then have "store_failure_info e i x resp w = (Some (OtherException name msg), w)"
      using Some by (simp add: store_failure_info_loads_raises)
    then show ?thesis using assms r by auto
  qed
qed

lemma store_failure_info_state:
  "outbox (snd (store_failure_info e i x resp w)) = outbox w \<and>
   Issue_objects (snd (store_failure_info e i x resp w)) = Issue_objects w \<and>
   (fst (store_failure_info e i x resp w) \<noteq> None \<longrightarrow> snd (store_failure_info e i x resp w) = w)"
proof (cases "MessagingServiceConfig_objects w i")
  case None
  then show ?thesis by (simp add: store_failure_info_absent)
next
  case (Some c)
  show ?thesis
  proof (cases resp)
    case None
    then show ?thesis
      using Some except_DoesNotExist_save_state [of w e i]
      by (simp add: store_failure_info_def MessagingServiceConfig_get_def)
  next
    case r: (Some r)
    show ?thesis
      using Some r except_DoesNotExist_save_state [of w e i]
      by (cases "json_loads e (body_text r)")
         (simp_all add: store_failure_info_def MessagingServiceConfig_get_def
            except_DoesNotExist_def)
  qed
qed


lemma try_post_raises:
  "requests_post e (sendMessage_url tok) pl 5 = Inl err \<Longrightarrow>
   send_telegram_message_try e tok pl i w = (Some err, posted e tok pl w)"
  by (simp add: send_telegram_message_try_def http_post_def)

lemma try_json_raises:
  "requests_post e (sendMessage_url tok) pl 5 = Inr r \<Longrightarrow>
   json_method r = Raises name msg \<Longrightarrow>
   send_telegram_message_try e tok pl i w =
     (Some (OtherException name msg), posted e tok pl w)"
  by (simp add: send_telegram_message_try_def http_post_def)

lemma try_http_error:
  "requests_post e (sendMessage_url tok) pl 5 = Inr r \<Longrightarrow>
   \<forall>name msg. json_method r \<noteq> Raises name msg \<Longrightarrow>
   400 \<le> status_code r \<Longrightarrow> status_code r < 600 \<Longrightarrow>
   send_telegram_message_try e tok pl i w =
     (Some (RequestException (ascii ''HTTPError'')
           (str_int (status_code r)
              @ (if status_code r < 500 then ascii '' Client Error: '' else ascii '' Server Error: '')
              @ reason r @ ascii '' for url: '' @ url r)
           (Some r)), posted e tok pl w)"
  by (cases "json_method r")
     (simp_all add: send_telegram_message_try_def http_post_def raise_for_status_def)

lemma try_no_body:
  "requests_post e (sendMessage_url tok) pl 5 = Inr r \<Longrightarrow>
   \<not> (400 \<le> status_code r \<and> status_code r < 600) \<Longrightarrow>
   json_method r = RaisesValueError \<or> json_method r = Returns JNull \<Longrightarrow>
   send_telegram_message_try e tok pl i w = store_success_info e i (posted e tok pl w)"
  by (auto simp add: send_telegram_message_try_def http_post_def raise_for_status_def)

lemma try_ok_not_false:
  "requests_post e (sendMessage_url tok) pl 5 = Inr r \<Longrightarrow>
   \<not> (400 \<le> status_code r \<and> status_code r < 600) \<Longrightarrow>
   json_method r = Returns (JObj kvs) \<Longrightarrow>
   map_of kvs (ascii ''ok'') \<noteq> Some (JBool False) \<Longrightarrow>
   send_telegram_message_try e tok pl i w = store_success_info e i (posted e tok pl w)"
  by (auto simp add: send_telegram_message_try_def http_post_def raise_for_status_def
      json_get_def split: option.splits)

lemma try_ok_false:
  "requests_post e (sendMessage_url tok) pl 5 = Inr r \<Longrightarrow>
   \<not> (400 \<le> status_code r \<and> status_code r < 600) \<Longrightarrow>
   json_method r = Returns (JObj kvs) \<Longrightarrow>
   map_of kvs (ascii ''ok'') = Some (JBool False) \<Longrightarrow>
   send_telegram_message_try e tok pl i w =
     (Some (RequestException (ascii ''HTTPError'')
          (py_str e (case map_of kvs (ascii ''description'') of
                       None \<Rightarrow> JStr (ascii ''Telegram API error'')
                     | Some d \<Rightarrow> d))
          (Some r)), posted e tok pl w)"
  by (auto simp add: send_telegram_message_try_def http_post_def raise_for_status_def
      json_get_def)

lemma try_not_a_dict:
  "requests_post e (sendMessage_url tok) pl 5 = Inr r \<Longrightarrow>
   \<not> (400 \<le> status_code r \<and> status_code r < 600) \<Longrightarrow>
   json_method r = Returns v \<Longrightarrow>
   v \<noteq> JNull \<Longrightarrow> \<forall>kvs. v \<noteq> JObj kvs \<Longrightarrow>
   send_telegram_message_try e tok pl i w =
     (Some (OtherException (ascii ''AttributeError'')
          ([39] @ py_type_name v @ [39] @ ascii '' object has no attribute ''
             @ [39] @ ascii ''get'' @ [39])), posted e tok pl w)"
  by (cases v) (auto simp add: send_telegram_message_try_def http_post_def raise_for_status_def
      json_get_def)

lemma try_cases:
  "send_telegram_message_try e tok pl i w = store_success_info e i (posted e tok pl w)
   \<or> (\<exists>err. send_telegram_message_try e tok pl i w = (Some err, posted e tok pl w))"
proof (cases "requests_post e (sendMessage_url tok) pl 5")
  case (Inl err)
  then show ?thesis by (simp add: try_post_raises)
next
  case (Inr r)
  show ?thesis
  proof (cases "json_method r")
    case (Raises name msg)
    then show ?thesis using Inr by (simp add: try_json_raises)
  next
    case RaisesValueError
    show ?thesis
    proof (cases "400 \<le> status_code r \<and> status_code r < 600")
      case True
      then show ?thesis using Inr RaisesValueError by (simp add: try_http_error)
    next
      case False
      then show ?thesis using Inr RaisesValueError try_no_body by blast
    qed
  next
    case (Returns v)
    show ?thesis
    proof (cases "400 \<le> status_code r \<and> status_code r < 600")
      case True
      then show ?thesis using Inr Returns by (simp add: try_http_error)
    next
      case False
      show ?thesis
      proof (cases v)
        case JNull
        then show ?thesis using Inr False Returns try_no_body by blast
      next
        case (JObj kvs)
        show ?thesis
        proof (cases "map_of kvs (ascii ''ok'') = Some (JBool False)")
          case True
          then show ?thesis using Inr False Returns JObj try_ok_false by blast
        next
          case ok: False
          then show ?thesis using Inr False Returns JObj try_ok_not_false by blast
        qed
      qed (use Inr False Returns try_not_a_dict [of e tok pl r v i w] in auto)
    qed
  qed
qed

lemma try_state:
  "outbox (snd (send_telegram_message_try e tok pl i w)) = outbox (posted e tok pl w) \<and>
   Issue_objects (snd (send_telegram_message_try e tok pl i w)) = Issue_objects w \<and>
   (fst (send_telegram_message_try e tok pl i w) \<noteq> None \<longrightarrow>
      snd (send_telegram_message_try e tok pl i w) = posted e tok pl w)"
  using try_cases [of e tok pl i w] store_success_info_state [of e i "posted e tok pl w"]
  by (auto simp add: http_post_def)

lemma send_of_try_returns:
  "fst (send_telegram_message_try e tok pl i w) = None \<Longrightarrow>
   send_telegram_message e tok pl i w = (None, snd (send_telegram_message_try e tok pl i w))"
  by (cases "send_telegram_message_try e tok pl i w") (simp add: send_telegram_message_def)

lemma send_of_try_request_exception:
  "send_telegram_message_try e tok pl i w = (Some (RequestException name msg resp), w2) \<Longrightarrow>
   send_telegram_message e tok pl i w =
     store_failure_info e i (RequestException name msg resp) resp w2"
  by (simp add: send_telegram_message_def)

lemma send_of_try_other_exception:
  "send_telegram_message_try e tok pl i w = (Some err, w2) \<Longrightarrow>
   \<forall>name msg resp. err \<noteq> RequestException name msg resp \<Longrightarrow>
   send_telegram_message e tok pl i w = store_failure_info e i err None w2"
  by (cases err) (simp_all add: send_telegram_message_def)

lemma send_of_try_raises:
  assumes "fst (send_telegram_message_try e tok pl i w) = Some err"
  shows "\<exists>resp. send_telegram_message e tok pl i w =
           store_failure_info e i err resp (posted e tok pl w)"
proof -
  have "send_telegram_message_try e tok pl i w = (Some err, posted e tok pl w)"
    using assms try_state [of e tok pl i w]
    by (cases "send_telegram_message_try e tok pl i w") auto
  then show ?thesis
    using send_of_try_request_exception [of e tok pl i w _ _ _ "posted e tok pl w"]
      send_of_try_other_exception [of e tok pl i w err "posted e tok pl w"]
    by (cases err) auto
qed

lemma send_of_try_success:
  "send_telegram_message_try e tok pl i w = store_success_info e i (posted e tok pl w) \<Longrightarrow>
   MessagingServiceConfig_objects w i = Some c \<Longrightarrow>
   save_error e (clear_failure_status c) = None \<Longrightarrow>
   send_telegram_message e tok pl i w =
     (None, (posted e tok pl w)\<lparr>MessagingServiceConfig_objects :=
              (MessagingServiceConfig_objects w)(i \<mapsto> clear_failure_status c)\<rparr>)"
  using store_success_info_saved [of "posted e tok pl w" i c e]
  by (simp add: send_telegram_message_def posted_objects)

lemma send_telegram_message_raises:
  assumes "fst (send_telegram_message e tok pl i w) = Some err"
  shows "(\<exists>row name msg. save_error e row = Some (name, msg) \<and> err = OtherException name msg)
     \<or> (\<exists>txt name msg. json_loads e txt = Raises name msg \<and> err = OtherException name msg)"
proof (cases "fst (send_telegram_message_try e tok pl i w)")
  case None
  then show ?thesis using assms by (simp add: send_of_try_returns)
next
  case (Some x)
  then obtain resp where
    "send_telegram_message e tok pl i w = store_failure_info e i x resp (posted e tok pl w)"
    using send_of_try_raises by blast
  then show ?thesis
    using assms store_failure_info_raises [of e i x resp "posted e tok pl w" err] by simp
qed

lemma send_telegram_message_raised_by_store:
  assumes "fst (send_telegram_message e tok pl i w) = Some err"
  shows "\<exists>x resp. fst (send_telegram_message_try e tok pl i w) = Some x \<and>
           store_failure_info e i x resp (posted e tok pl w) = (Some err, posted e tok pl w)"
proof (cases "fst (send_telegram_message_try e tok pl i w)")
  case None
  then show ?thesis using assms by (simp add: send_of_try_returns)
next
  case (Some x)
  then obtain resp where
    s: "send_telegram_message e tok pl i w = store_failure_info e i x resp (posted e tok pl w)"
    using send_of_try_raises by blast
  then have "fst (store_failure_info e i x resp (posted e tok pl w)) = Some err"
    using assms by simp
  then have "store_failure_info e i x resp (posted e tok pl w) = (Some err, posted e tok pl w)"
    using store_failure_info_state [of e i x resp "posted e tok pl w"]
    by (cases "store_failure_info e i x resp (posted e tok pl w)") auto
  then show ?thesis using Some by blast
qed

lemma send_telegram_message_state:
  "outbox (snd (send_telegram_message e tok pl i w)) =
     outbox w @ [\<lparr>req_url = sendMessage_url tok, req_json = pl, req_timeout = 5\<rparr>] \<and>
   Issue_objects (snd (send_telegram_message e tok pl i w)) = Issue_objects w"
proof (cases "fst (send_telegram_message_try e tok pl i w)")
  case None
  then show ?thesis
    using try_state [of e tok pl i w] by (simp add: send_of_try_returns http_post_def)
next
  case (Some x)
  then obtain resp where
    "send_telegram_message e tok pl i w = store_failure_info e i x resp (posted e tok pl w)"
    using send_of_try_raises by blast
  then show ?thesis
    using store_failure_info_state [of e i x resp "posted e tok pl w"]
    by (simp add: http_post_def)
qed

lemma store_failure_info_saved:
  assumes "MessagingServiceConfig_objects w i = Some c"
    and "\<forall>r name msg. resp = Some r \<longrightarrow> json_loads e (body_text r) \<noteq> Raises name msg"
    and "row = c\<lparr>last_failure_timestamp := Some (now e),
           last_failure_error_type := Some (exn_type_name x),
           last_failure_error_message := Some (exn_str x),
           last_failure_status_code := map_option status_code resp,
           last_failure_response_text := map_option (\<lambda>r. take 2000 (body_text r)) resp,
           last_failure_is_json :=
             map_option (\<lambda>r. decodes (json_loads e (body_text r))) resp\<rparr>"
    and "save_error e row = None"
  shows "store_failure_info e i x resp w =
     (None, w\<lparr>MessagingServiceConfig_objects := (MessagingServiceConfig_objects w)(i \<mapsto> row)\<rparr>)"
proof (cases resp)
  case None
  then show ?thesis
    using assms
      store_failure_info_no_response_saved [where w = w and i = i and c = c and row = row
        and e = e and x = x]
    by simp
next
  case (Some r)
  then show ?thesis
    using assms
      store_failure_info_response_saved [where w = w and i = i and c = c and row = row
        and e = e and x = x and r = r]
    by simp
qed

lemma store_failure_info_completed:
  assumes "MessagingServiceConfig_objects w i = Some c"
    and "fst (store_failure_info e i x resp w) = None"
  shows "\<exists>c'. config_after (store_failure_info e i x resp w) i = Some c' \<and>
           last_failure_timestamp c' = Some (now e) \<and>
           last_failure_error_type c' = Some (exn_type_name x) \<and>
           last_failure_error_message c' = Some (exn_str x) \<and>
           last_failure_status_code c' = map_option status_code resp"
proof -
  have raises: "\<not> (\<exists>r name msg. resp = Some r \<and> json_loads e (body_text r) = Raises name msg)"
    using assms by (auto simp add: store_failure_info_loads_raises)
  let ?row = "c\<lparr>last_failure_timestamp := Some (now e),
           last_failure_error_type := Some (exn_type_name x),
           last_failure_error_message := Some (exn_str x),
           last_failure_status_code := map_option status_code resp,
           last_failure_response_text := map_option (\<lambda>r. take 2000 (body_text r)) resp,
           last_failure_is_json :=
             map_option (\<lambda>r. decodes (json_loads e (body_text r))) resp\<rparr>"
  show ?thesis
  proof (cases "save_error e ?row")
    case None
    then have "store_failure_info e i x resp w =
     (None, w\<lparr>MessagingServiceConfig_objects := (MessagingServiceConfig_objects w)(i \<mapsto> ?row)\<rparr>)"
      using assms(1) raises by (intro store_failure_info_saved) auto
    then show ?thesis by (simp add: config_after_def)
  next
    case (Some nm)
    obtain name msg where nm: "nm = (name, msg)" by (cases nm)
    have "store_failure_info e i x resp w = (Some (OtherException name msg), w)"
    proof (cases resp)
      case None
      then show ?thesis
        using assms(1) Some nm
          store_failure_info_no_response_refused [where w = w and i = i and c = c
            and row = ?row and e = e and x = x and name = name and msg = msg]
        by simp
    next
      case r: (Some r)
      then show ?thesis
        using assms(1) Some nm raises
          store_failure_info_response_refused [where w = w and i = i and c = c
            and row = ?row and e = e and x = x and r = r and name = name and msg = msg]
        by simp
    qed
    then show ?thesis using assms(2) by simp
  qed
qed

lemma send_records_exception:
  assumes "MessagingServiceConfig_objects w i = Some c"
    and "fst (send_telegram_message_try e tok pl i w) = Some x"
    and "fst (send_telegram_message e tok pl i w) = None"
  shows "\<exists>c'. config_after (send_telegram_message e tok pl i w) i = Some c' \<and>
           last_failure_timestamp c' = Some (now e) \<and>
           last_failure_error_type c' = Some (exn_type_name x) \<and>
           last_failure_error_message c' = Some (exn_str x)"
proof -
  obtain resp where
    "send_telegram_message e tok pl i w = store_failure_info e i x resp (posted e tok pl w)"
    using assms(2) send_of_try_raises by blast
  then show ?thesis
    using assms(1,3)
      store_failure_info_completed [where w = "posted e tok pl w" and i = i and c = c
        and e = e and x = x and resp = resp]
    by (auto simp add: posted_objects)
qed

lemma send_alert_missing_issue:
  "Issue_objects w issue_id = None \<Longrightarrow>
   telegram_backend_send_alert e tok chat issue_id sd aa ar i ur w =
     (Some Issue_DoesNotExist, w)"
  by (simp add: telegram_backend_send_alert_def Issue_get_def)

lemma send_alert_composition_raises:
  "Issue_objects w issue_id = Some iss \<Longrightarrow> alert_text e iss ar ur = Inl err \<Longrightarrow>
   telegram_backend_send_alert e tok chat issue_id sd aa ar i ur w = (Some err, w)"
  by (simp add: telegram_backend_send_alert_def Issue_get_def)

lemma send_alert_composed:
  "Issue_objects w issue_id = Some iss \<Longrightarrow> alert_text e iss ar ur = Inr composed \<Longrightarrow>
   telegram_backend_send_alert e tok chat issue_id sd aa ar i ur w =
     send_telegram_message e tok
       \<lparr>chat_id = chat, message_text = composed, disable_web_page_preview = True\<rparr> i w"
  by (simp add: telegram_backend_send_alert_def Issue_get_def)

lemma demo_save_error_plain:
  "demo_save_error
     (demo_config\<lparr>last_failure_timestamp := t,
                  last_failure_error_type := None,
                  last_failure_error_message := None,
                  last_failure_status_code := s,
                  last_failure_response_text := None,
                  last_failure_is_json := j\<rparr>) = None"
  by (simp add: demo_save_error_def demo_config_def unencodable_def surrogate_def ascii_def)

lemma demo_surrogate_run:
  "send_telegram_message (demo_env (Inr demo_response_200_surrogate)) (ascii ''TOKEN'')
     pl 1 demo_world =
   (Some (OtherException (ascii ''UnicodeEncodeError'') (ascii ''surrogates not allowed'')),
    posted (demo_env (Inr demo_response_200_surrogate)) (ascii ''TOKEN'') pl demo_world)"
proof -
  let ?e = "demo_env (Inr demo_response_200_surrogate)"
  let ?r = "demo_response_200_surrogate"
  have "send_telegram_message_try ?e (ascii ''TOKEN'') pl 1 demo_world =
          (Some (RequestException (ascii ''HTTPError'') [55296] (Some ?r)),
           posted ?e (ascii ''TOKEN'') pl demo_world)"
    using try_ok_false [where e = ?e and tok = "ascii ''TOKEN''" and pl = pl and r = ?r
        and kvs = "[(ascii ''ok'', JBool False), (ascii ''description'', JStr [55296])]"
        and i = 1 and w = demo_world]
    by (simp add: demo_env_def demo_response_200_surrogate_def json_surrogate_def py_str_def
          ascii_def)
  then have "send_telegram_message ?e (ascii ''TOKEN'') pl 1 demo_world =
          store_failure_info ?e 1 (RequestException (ascii ''HTTPError'') [55296] (Some ?r))
            (Some ?r) (posted ?e (ascii ''TOKEN'') pl demo_world)"
    by (rule send_of_try_request_exception)
  moreover have "json_loads ?e (body_text ?r) = Returns json_surrogate"
    by (simp add: demo_env_def demo_response_200_surrogate_def demo_loads_def
          body_surrogate_def body_unauthorized_def body_chat_not_found_def ascii_def)
  moreover have "save_error ?e
      (demo_config\<lparr>last_failure_timestamp := Some (now ?e),
           last_failure_error_type :=
             Some (exn_type_name (RequestException (ascii ''HTTPError'') [55296] (Some ?r))),
           last_failure_error_message :=
             Some (exn_str (RequestException (ascii ''HTTPError'') [55296] (Some ?r))),
           last_failure_status_code := Some (status_code ?r),
           last_failure_response_text := Some (take 2000 (body_text ?r)),
           last_failure_is_json := Some (decodes (json_loads ?e (body_text ?r)))\<rparr>) =
      Some (ascii ''UnicodeEncodeError'', ascii ''surrogates not allowed'')"
    by (simp add: demo_env_def demo_save_error_def unencodable_def surrogate_def)
  ultimately show ?thesis
    using store_failure_info_response_refused
      [where w = "posted ?e (ascii ''TOKEN'') pl demo_world" and i = 1 and c = demo_config
         and e = ?e and r = ?r
         and x = "RequestException (ascii ''HTTPError'') [55296] (Some ?r)"
         and name = "ascii ''UnicodeEncodeError''" and msg = "ascii ''surrogates not allowed''",
       OF _ _ refl]
    by (simp add: posted_objects demo_world_def)
qed

lemma demo_loads_chat_not_found: "demo_loads body_chat_not_found = Returns json_chat_not_found"
  by (simp add: demo_loads_def body_unauthorized_def body_chat_not_found_def ascii_def)

lemma demo_loads_surrogate: "demo_loads body_surrogate = Returns json_surrogate"
  by (simp add: demo_loads_def body_unauthorized_def body_chat_not_found_def
        body_surrogate_def ascii_def)

lemma demo_loads_unauthorized: "demo_loads body_unauthorized = Returns json_unauthorized"
  by (simp add: demo_loads_def)

lemma demo_timeout_run:
  "send_telegram_message (demo_env (Inl demo_timeout)) (ascii ''TOKEN'') pl 1 demo_world =
   (None, (posted (demo_env (Inl demo_timeout)) (ascii ''TOKEN'') pl demo_world)
      \<lparr>MessagingServiceConfig_objects :=
         [1 \<mapsto> demo_config\<lparr>last_failure_timestamp := Some 1700000000,
                   last_failure_error_type := Some (ascii ''ReadTimeout''),
                   last_failure_error_message := Some (ascii ''Read timed out. (read timeout=5)''),
                   last_failure_status_code := None,
                   last_failure_response_text := None,
                   last_failure_is_json := None\<rparr>]\<rparr>)"
proof -
  let ?e = "demo_env (Inl demo_timeout)"
  have "send_telegram_message_try ?e (ascii ''TOKEN'') pl 1 demo_world =
          (Some demo_timeout, posted ?e (ascii ''TOKEN'') pl demo_world)"
    by (simp add: try_post_raises demo_env_def)
  then have "send_telegram_message ?e (ascii ''TOKEN'') pl 1 demo_world =
          store_failure_info ?e 1 demo_timeout None (posted ?e (ascii ''TOKEN'') pl demo_world)"
    unfolding demo_timeout_def by (rule send_of_try_request_exception)
  moreover have "store_failure_info ?e 1 demo_timeout None
        (posted ?e (ascii ''TOKEN'') pl demo_world) =
     (None, (posted ?e (ascii ''TOKEN'') pl demo_world)\<lparr>MessagingServiceConfig_objects :=
        (MessagingServiceConfig_objects (posted ?e (ascii ''TOKEN'') pl demo_world))(1 \<mapsto>
          demo_config\<lparr>last_failure_timestamp := Some 1700000000,
             last_failure_error_type := Some (ascii ''ReadTimeout''),
             last_failure_error_message := Some (ascii ''Read timed out. (read timeout=5)''),
             last_failure_status_code := None,
             last_failure_response_text := None,
             last_failure_is_json := None\<rparr>)\<rparr>)"
    by (rule store_failure_info_no_response_saved [where c = demo_config])
       (simp_all add: posted_objects demo_world_def demo_env_def demo_timeout_def
          demo_save_error_def demo_config_def unencodable_def surrogate_def ascii_def)
  ultimately show ?thesis by (simp add: posted_objects demo_world_def)
qed

lemma demo_list_run:
  "send_telegram_message (demo_env (Inr demo_response_200_list)) (ascii ''TOKEN'') pl 1
     demo_world =
   (None, (posted (demo_env (Inr demo_response_200_list)) (ascii ''TOKEN'') pl demo_world)
      \<lparr>MessagingServiceConfig_objects :=
         [1 \<mapsto> demo_config\<lparr>last_failure_timestamp := Some 1700000000,
                   last_failure_error_type := Some (ascii ''AttributeError''),
                   last_failure_error_message :=
                     Some ([39] @ ascii ''list'' @ [39] @ ascii '' object has no attribute ''
                           @ [39] @ ascii ''get'' @ [39]),
                   last_failure_status_code := None,
                   last_failure_response_text := None,
                   last_failure_is_json := None\<rparr>]\<rparr>)"
proof -
  let ?e = "demo_env (Inr demo_response_200_list)"
  let ?x = "OtherException (ascii ''AttributeError'')
          ([39] @ py_type_name (JArr [JInt 1]) @ [39] @ ascii '' object has no attribute ''
             @ [39] @ ascii ''get'' @ [39])"
  have "send_telegram_message_try ?e (ascii ''TOKEN'') pl 1 demo_world =
          (Some ?x, posted ?e (ascii ''TOKEN'') pl demo_world)"
    by (rule try_not_a_dict [where r = demo_response_200_list])
       (simp_all add: demo_env_def demo_response_200_list_def)
  then have "send_telegram_message ?e (ascii ''TOKEN'') pl 1 demo_world =
          store_failure_info ?e 1 ?x None (posted ?e (ascii ''TOKEN'') pl demo_world)"
    by (rule send_of_try_other_exception) simp
  moreover have "store_failure_info ?e 1 ?x None (posted ?e (ascii ''TOKEN'') pl demo_world) =
     (None, (posted ?e (ascii ''TOKEN'') pl demo_world)\<lparr>MessagingServiceConfig_objects :=
        (MessagingServiceConfig_objects (posted ?e (ascii ''TOKEN'') pl demo_world))(1 \<mapsto>
          demo_config\<lparr>last_failure_timestamp := Some 1700000000,
             last_failure_error_type := Some (ascii ''AttributeError''),
             last_failure_error_message :=
               Some ([39] @ ascii ''list'' @ [39] @ ascii '' object has no attribute ''
                     @ [39] @ ascii ''get'' @ [39]),
             last_failure_status_code := None,
             last_failure_response_text := None,
             last_failure_is_json := None\<rparr>)\<rparr>)"
    by (rule store_failure_info_no_response_saved [where c = demo_config])
       (simp_all add: posted_objects demo_world_def demo_env_def
          demo_save_error_def demo_config_def unencodable_def surrogate_def ascii_def)
  ultimately show ?thesis by (simp add: posted_objects demo_world_def)
qed

lemma demo_not_ok_run:
  "send_telegram_message (demo_env (Inr demo_response_200_not_ok)) (ascii ''TOKEN'') pl 1
     demo_world =
   (None, (posted (demo_env (Inr demo_response_200_not_ok)) (ascii ''TOKEN'') pl demo_world)
      \<lparr>MessagingServiceConfig_objects :=
         [1 \<mapsto> demo_config\<lparr>last_failure_timestamp := Some 1700000000,
                   last_failure_error_type := Some (ascii ''HTTPError''),
                   last_failure_error_message := Some (ascii ''chat not found''),
                   last_failure_status_code := Some 200,
                   last_failure_response_text := Some body_chat_not_found,
                   last_failure_is_json := Some True\<rparr>]\<rparr>)"
proof -
  let ?e = "demo_env (Inr demo_response_200_not_ok)"
  let ?r = "demo_response_200_not_ok"
  let ?x = "RequestException (ascii ''HTTPError'') (ascii ''chat not found'') (Some ?r)"
  have "send_telegram_message_try ?e (ascii ''TOKEN'') pl 1 demo_world =
          (Some ?x, posted ?e (ascii ''TOKEN'') pl demo_world)"
    using try_ok_false [where e = ?e and tok = "ascii ''TOKEN''" and pl = pl and r = ?r
        and kvs = "[(ascii ''ok'', JBool False),
                    (ascii ''description'', JStr (ascii ''chat not found''))]"
        and i = 1 and w = demo_world]
    by (simp add: demo_env_def demo_response_200_not_ok_def json_chat_not_found_def py_str_def
          ascii_def)
  then have "send_telegram_message ?e (ascii ''TOKEN'') pl 1 demo_world =
          store_failure_info ?e 1 ?x (Some ?r) (posted ?e (ascii ''TOKEN'') pl demo_world)"
    by (rule send_of_try_request_exception)
  moreover have "store_failure_info ?e 1 ?x (Some ?r)
        (posted ?e (ascii ''TOKEN'') pl demo_world) =
     (None, (posted ?e (ascii ''TOKEN'') pl demo_world)\<lparr>MessagingServiceConfig_objects :=
        (MessagingServiceConfig_objects (posted ?e (ascii ''TOKEN'') pl demo_world))(1 \<mapsto>
          demo_config\<lparr>last_failure_timestamp := Some 1700000000,
             last_failure_error_type := Some (ascii ''HTTPError''),
             last_failure_error_message := Some (ascii ''chat not found''),
             last_failure_status_code := Some 200,
             last_failure_response_text := Some body_chat_not_found,
             last_failure_is_json := Some True\<rparr>)\<rparr>)"
  proof (rule store_failure_info_response_saved [where c = demo_config])
    show "MessagingServiceConfig_objects (posted ?e (ascii ''TOKEN'') pl demo_world) 1 =
        Some demo_config"
      by (simp add: posted_objects demo_world_def)
    show "\<forall>name msg. json_loads ?e (body_text ?r) \<noteq> Raises name msg"
      by (simp add: demo_env_def demo_response_200_not_ok_def demo_loads_chat_not_found)
    have "take 2000 body_chat_not_found = body_chat_not_found"
      by (simp add: body_chat_not_found_def ascii_def)
    then show "demo_config\<lparr>last_failure_timestamp := Some 1700000000,
             last_failure_error_type := Some (ascii ''HTTPError''),
             last_failure_error_message := Some (ascii ''chat not found''),
             last_failure_status_code := Some 200,
             last_failure_response_text := Some body_chat_not_found,
             last_failure_is_json := Some True\<rparr> =
        demo_config\<lparr>last_failure_timestamp := Some (now ?e),
             last_failure_error_type := Some (exn_type_name ?x),
             last_failure_error_message := Some (exn_str ?x),
             last_failure_status_code := Some (status_code ?r),
             last_failure_response_text := Some (take 2000 (body_text ?r)),
             last_failure_is_json := Some (decodes (json_loads ?e (body_text ?r)))\<rparr>"
      by (simp add: demo_env_def demo_response_200_not_ok_def demo_loads_chat_not_found)
    show "save_error ?e (demo_config\<lparr>last_failure_timestamp := Some 1700000000,
             last_failure_error_type := Some (ascii ''HTTPError''),
             last_failure_error_message := Some (ascii ''chat not found''),
             last_failure_status_code := Some 200,
             last_failure_response_text := Some body_chat_not_found,
             last_failure_is_json := Some True\<rparr>) = None"
      by (simp add: demo_env_def demo_save_error_def demo_config_def unencodable_def
            surrogate_def body_chat_not_found_def ascii_def)
  qed
  ultimately show ?thesis by (simp add: posted_objects demo_world_def)
qed

lemma demo_alert_text:
  "alert_text (demo_env answer) demo_issue (ascii ''New'') None =
     Inr (ascii ''New issue'' @ [10] @ ascii ''Issue: ValueError: bad input'' @ [10]
          @ ascii ''Project: Acme'' @ [10]
          @ ascii ''URL: https://bugsink.example.org/issues/issue/7/'')"
  by (simp add: alert_text_def demo_env_def demo_issue_def demo_truncatechars_def
        truncate_message_def ascii_def)

lemma demo_alert_text_broken:
  "alert_text (demo_env answer) demo_broken_issue (ascii ''New'') None =
     Inl (OtherException (ascii ''DoesNotExist'')
           (ascii ''Project matching query does not exist.''))"
  by (simp add: alert_text_def demo_env_def demo_broken_issue_def demo_issue_def
        demo_truncatechars_def)

section \<open>The claims of the specification\<close>

text \<open>
  Claim C1, as stated, fails on the alert task. The issue is fetched by
  \<^verbatim>\<open>Issue.objects.get(id=issue_id)\<close> while the message is composed, before
  \<^verbatim>\<open>_send_telegram_message\<close> and outside its handlers: with no issue 8 in the table the
  task ends with \<^verbatim>\<open>Issue.DoesNotExist\<close>, raised to its caller, and the state is as it
  was: nothing is sent and nothing is recorded.
\<close>

theorem send_alert_propagates_counterexample:
  "telegram_backend_send_alert (demo_env (Inr demo_response_200_ok_zero)) (ascii ''TOKEN'')
     (ascii ''42'') 8 (ascii ''is new'') (ascii ''a'') (ascii ''New'') 1 None demo_world =
   (Some Issue_DoesNotExist, demo_world)"
  by (simp add: telegram_backend_send_alert_def Issue_get_def demo_world_def)

text \<open>
  Claim C1, amended. Every exception raised in the body of the \<^verbatim>\<open>try\<close> of
  \<^verbatim>\<open>_send_telegram_message\<close> is caught and handed to \<^verbatim>\<open>_store_failure_info\<close>. An
  exception leaves \<^verbatim>\<open>_send_telegram_message\<close>, and so the test-message task, only when
  that write of the failure itself raises, in the handler. When the body raised and the
  function returns, the row of the correlation id, if it exists, holds the time of the
  attempt, the class name of the exception and its text. The alert task fetches the issue
  and composes its text before the call, outside every handler: a missing issue
  (\<^verbatim>\<open>Issue.DoesNotExist\<close>) or a composition that raises ends the task with that exception
  and the state as it was; once the text is composed the task is
  \<^verbatim>\<open>_send_telegram_message\<close> on that text.
\<close>

theorem exceptions_caught_in_send_telegram_message:
  "(fst (send_telegram_message e tok pl i w) = Some err \<longrightarrow>
      (\<exists>x resp. fst (send_telegram_message_try e tok pl i w) = Some x \<and>
         store_failure_info e i x resp (posted e tok pl w) = (Some err, posted e tok pl w))) \<and>
   (MessagingServiceConfig_objects w i = Some c \<and>
    fst (send_telegram_message_try e tok pl i w) = Some x \<and>
    fst (send_telegram_message e tok pl i w) = None \<longrightarrow>
      (\<exists>c'. config_after (send_telegram_message e tok pl i w) i = Some c' \<and>
            last_failure_timestamp c' = Some (now e) \<and>
            last_failure_error_type c' = Some (exn_type_name x) \<and>
            last_failure_error_message c' = Some (exn_str x))) \<and>
   (fst (telegram_backend_send_test_message e tok chat project_name display_name i w) = Some err
      \<longrightarrow>
      (\<exists>pl' x resp. fst (send_telegram_message_try e tok pl' i w) = Some x \<and>
         store_failure_info e i x resp (posted e tok pl' w) = (Some err, posted e tok pl' w))) \<and>
   (Issue_objects w issue_id = None \<longrightarrow>
      telegram_backend_send_alert e tok chat issue_id sd aa ar i ur w =
        (Some Issue_DoesNotExist, w)) \<and>
   (Issue_objects w issue_id = Some iss \<and> alert_text e iss ar ur = Inl err \<longrightarrow>
      telegram_backend_send_alert e tok chat issue_id sd aa ar i ur w = (Some err, w)) \<and>
   (Issue_objects w issue_id = Some iss \<and> alert_text e iss ar ur = Inr composed \<longrightarrow>
      telegram_backend_send_alert e tok chat issue_id sd aa ar i ur w =
        send_telegram_message e tok
          \<lparr>chat_id = chat, message_text = composed, disable_web_page_preview = True\<rparr> i w)"
proof (intro conjI impI)
  assume "fst (send_telegram_message e tok pl i w) = Some err"
  then show "\<exists>x resp. fst (send_telegram_message_try e tok pl i w) = Some x \<and>
         store_failure_info e i x resp (posted e tok pl w) = (Some err, posted e tok pl w)"
    by (rule send_telegram_message_raised_by_store)
next
  assume "MessagingServiceConfig_objects w i = Some c \<and>
    fst (send_telegram_message_try e tok pl i w) = Some x \<and>
    fst (send_telegram_message e tok pl i w) = None"
  then show "\<exists>c'. config_after (send_telegram_message e tok pl i w) i = Some c' \<and>
            last_failure_timestamp c' = Some (now e) \<and>
            last_failure_error_type c' = Some (exn_type_name x) \<and>
            last_failure_error_message c' = Some (exn_str x)"
    using send_records_exception [where w = w and i = i and c = c and e = e and tok = tok
        and pl = pl and x = x] by blast
next
  assume "fst (telegram_backend_send_test_message e tok chat project_name display_name i w)
      = Some err"
  then obtain pl' where "fst (send_telegram_message e tok pl' i w) = Some err"
    by (simp add: telegram_backend_send_test_message_def Let_def)
  then show "\<exists>pl' x resp. fst (send_telegram_message_try e tok pl' i w) = Some x \<and>
         store_failure_info e i x resp (posted e tok pl' w) = (Some err, posted e tok pl' w)"
    using send_telegram_message_raised_by_store by blast
next
  assume "Issue_objects w issue_id = None"
  then show "telegram_backend_send_alert e tok chat issue_id sd aa ar i ur w =
        (Some Issue_DoesNotExist, w)"
    by (rule send_alert_missing_issue)
next
  assume "Issue_objects w issue_id = Some iss \<and> alert_text e iss ar ur = Inl err"
  then show "telegram_backend_send_alert e tok chat issue_id sd aa ar i ur w = (Some err, w)"
    by (simp add: send_alert_composition_raises)
next
  assume "Issue_objects w issue_id = Some iss \<and> alert_text e iss ar ur = Inr composed"
  then show "telegram_backend_send_alert e tok chat issue_id sd aa ar i ur w =
     send_telegram_message e tok
       \<lparr>chat_id = chat, message_text = composed, disable_web_page_preview = True\<rparr> i w"
    by (intro send_alert_composed [where iss = iss]) simp_all
qed

theorem exceptions_caught_in_send_telegram_message_witness:
  "fst (send_telegram_message (demo_env (Inr demo_response_200_surrogate)) (ascii ''TOKEN'')
          demo_payload 1 demo_world) =
     Some (OtherException (ascii ''UnicodeEncodeError'') (ascii ''surrogates not allowed'')) \<and>
   (\<exists>x resp.
      fst (send_telegram_message_try (demo_env (Inr demo_response_200_surrogate))
             (ascii ''TOKEN'') demo_payload 1 demo_world) = Some x \<and>
      store_failure_info (demo_env (Inr demo_response_200_surrogate)) 1 x resp
        (posted (demo_env (Inr demo_response_200_surrogate)) (ascii ''TOKEN'') demo_payload
           demo_world) =
        (Some (OtherException (ascii ''UnicodeEncodeError'') (ascii ''surrogates not allowed'')),
         posted (demo_env (Inr demo_response_200_surrogate)) (ascii ''TOKEN'') demo_payload
           demo_world)) \<and>
   fst (telegram_backend_send_test_message (demo_env (Inr demo_response_200_surrogate))
          (ascii ''TOKEN'') (ascii ''42'') (ascii ''Acme'') (ascii ''Prod Alerts'') 1
          demo_world) =
     Some (OtherException (ascii ''UnicodeEncodeError'') (ascii ''surrogates not allowed'')) \<and>
   (\<exists>pl' x resp.
      fst (send_telegram_message_try (demo_env (Inr demo_response_200_surrogate))
             (ascii ''TOKEN'') pl' 1 demo_world) = Some x \<and>
      store_failure_info (demo_env (Inr demo_response_200_surrogate)) 1 x resp
        (posted (demo_env (Inr demo_response_200_surrogate)) (ascii ''TOKEN'') pl'
           demo_world) =
        (Some (OtherException (ascii ''UnicodeEncodeError'') (ascii ''surrogates not allowed'')),
         posted (demo_env (Inr demo_response_200_surrogate)) (ascii ''TOKEN'') pl'
           demo_world)) \<and>
   MessagingServiceConfig_objects demo_world 1 = Some demo_config \<and>
   fst (send_telegram_message_try (demo_env (Inl demo_timeout)) (ascii ''TOKEN'') demo_payload 1
          demo_world) = Some demo_timeout \<and>
   fst (send_telegram_message (demo_env (Inl demo_timeout)) (ascii ''TOKEN'') demo_payload 1
          demo_world) = None \<and>
   (\<exists>c'. config_after
           (send_telegram_message (demo_env (Inl demo_timeout)) (ascii ''TOKEN'') demo_payload 1
              demo_world) 1 = Some c' \<and>
         last_failure_timestamp c' = Some 1700000000 \<and>
         last_failure_error_type c' = Some (ascii ''ReadTimeout'') \<and>
         last_failure_error_message c' = Some (ascii ''Read timed out. (read timeout=5)'')) \<and>
   Issue_objects demo_world 8 = None \<and>
   telegram_backend_send_alert (demo_env (Inl demo_timeout)) (ascii ''TOKEN'')
     (ascii ''42'') 8 (ascii ''is new'') (ascii ''a'') (ascii ''New'') 1 None demo_world =
     (Some Issue_DoesNotExist, demo_world) \<and>
   Issue_objects demo_world 9 = Some demo_broken_issue \<and>
   alert_text (demo_env (Inl demo_timeout)) demo_broken_issue (ascii ''New'') None =
     Inl (OtherException (ascii ''DoesNotExist'')
           (ascii ''Project matching query does not exist.'')) \<and>
   telegram_backend_send_alert (demo_env (Inl demo_timeout)) (ascii ''TOKEN'')
     (ascii ''42'') 9 (ascii ''is new'') (ascii ''a'') (ascii ''New'') 1 None demo_world =
     (Some (OtherException (ascii ''DoesNotExist'')
             (ascii ''Project matching query does not exist.'')), demo_world) \<and>
   Issue_objects demo_world 7 = Some demo_issue \<and>
   alert_text (demo_env (Inl demo_timeout)) demo_issue (ascii ''New'') None =
     Inr (ascii ''New issue'' @ [10] @ ascii ''Issue: ValueError: bad input'' @ [10]
          @ ascii ''Project: Acme'' @ [10]
          @ ascii ''URL: https://bugsink.example.org/issues/issue/7/'') \<and>
   telegram_backend_send_alert (demo_env (Inl demo_timeout)) (ascii ''TOKEN'')
     (ascii ''42'') 7 (ascii ''is new'') (ascii ''a'') (ascii ''New'') 1 None demo_world =
     send_telegram_message (demo_env (Inl demo_timeout)) (ascii ''TOKEN'')
       \<lparr>chat_id = ascii ''42'',
        message_text =
          ascii ''New issue'' @ [10] @ ascii ''Issue: ValueError: bad input'' @ [10]
          @ ascii ''Project: Acme'' @ [10]
          @ ascii ''URL: https://bugsink.example.org/issues/issue/7/'',
        disable_web_page_preview = True\<rparr> 1 demo_world"
proof -
  let ?es = "demo_env (Inr demo_response_200_surrogate)"
  let ?et = "demo_env (Inl demo_timeout)"
  let ?u = "OtherException (ascii ''UnicodeEncodeError'') (ascii ''surrogates not allowed'')"
  let ?t = "ascii ''New issue'' @ [10] @ ascii ''Issue: ValueError: bad input'' @ [10]
          @ ascii ''Project: Acme'' @ [10]
          @ ascii ''URL: https://bugsink.example.org/issues/issue/7/''"
  have issues: "Issue_objects demo_world 7 = Some demo_issue"
      "Issue_objects demo_world 8 = None"
      "Issue_objects demo_world 9 = Some demo_broken_issue"
    by (simp_all add: demo_world_def)
  have row: "MessagingServiceConfig_objects demo_world 1 = Some demo_config"
    by (simp add: demo_world_def)
  have s1: "fst (send_telegram_message ?es (ascii ''TOKEN'') demo_payload 1 demo_world) = Some ?u"
    unfolding demo_surrogate_run by simp
  have s2: "fst (telegram_backend_send_test_message ?es (ascii ''TOKEN'') (ascii ''42'')
          (ascii ''Acme'') (ascii ''Prod Alerts'') 1 demo_world) = Some ?u"
    unfolding telegram_backend_send_test_message_def Let_def demo_surrogate_run by simp
  have t1: "fst (send_telegram_message_try ?et (ascii ''TOKEN'') demo_payload 1 demo_world) =
      Some demo_timeout"
    by (simp add: try_post_raises demo_env_def)
  have t2: "fst (send_telegram_message ?et (ascii ''TOKEN'') demo_payload 1 demo_world) = None"
    unfolding demo_timeout_run by simp
  note a = exceptions_caught_in_send_telegram_message
        [where e = ?es and tok = "ascii ''TOKEN''" and pl = demo_payload and i = 1
           and w = demo_world and err = ?u and chat = "ascii ''42''"
           and project_name = "ascii ''Acme''" and display_name = "ascii ''Prod Alerts''"]
  note b = exceptions_caught_in_send_telegram_message
        [where e = ?et and tok = "ascii ''TOKEN''" and pl = demo_payload and i = 1
           and w = demo_world and c = demo_config and x = demo_timeout and issue_id = 8
           and chat = "ascii ''42''" and sd = "ascii ''is new''" and aa = "ascii ''a''"
           and ar = "ascii ''New''" and ur = None]
  note c = exceptions_caught_in_send_telegram_message
        [where e = ?et and tok = "ascii ''TOKEN''" and i = 1
           and w = demo_world and issue_id = 9 and iss = demo_broken_issue
           and chat = "ascii ''42''" and sd = "ascii ''is new''" and aa = "ascii ''a''"
           and ar = "ascii ''New''" and ur = None
           and err = "OtherException (ascii ''DoesNotExist'')
                        (ascii ''Project matching query does not exist.'')"]
  note d = exceptions_caught_in_send_telegram_message
        [where e = ?et and tok = "ascii ''TOKEN''" and i = 1
           and w = demo_world and issue_id = 7 and iss = demo_issue
           and chat = "ascii ''42''" and sd = "ascii ''is new''" and aa = "ascii ''a''"
           and ar = "ascii ''New''" and ur = None and composed = ?t]
  have o1: "\<exists>x resp.
      fst (send_telegram_message_try ?es (ascii ''TOKEN'') demo_payload 1 demo_world) = Some x \<and>
      store_failure_info ?es 1 x resp (posted ?es (ascii ''TOKEN'') demo_payload demo_world) =
        (Some ?u, posted ?es (ascii ''TOKEN'') demo_payload demo_world)"
    using a s1 by blast
  have o2: "\<exists>pl' x resp.
      fst (send_telegram_message_try ?es (ascii ''TOKEN'') pl' 1 demo_world) = Some x \<and>
      store_failure_info ?es 1 x resp (posted ?es (ascii ''TOKEN'') pl' demo_world) =
        (Some ?u, posted ?es (ascii ''TOKEN'') pl' demo_world)"
    using a s2 by blast
  have r: "\<exists>c'. config_after
           (send_telegram_message ?et (ascii ''TOKEN'') demo_payload 1 demo_world) 1 = Some c' \<and>
         last_failure_timestamp c' = Some 1700000000 \<and>
         last_failure_error_type c' = Some (ascii ''ReadTimeout'') \<and>
         last_failure_error_message c' = Some (ascii ''Read timed out. (read timeout=5)'')"
    using b row t1 t2 by (simp add: demo_env_def demo_timeout_def)
  have m: "telegram_backend_send_alert ?et (ascii ''TOKEN'')
     (ascii ''42'') 8 (ascii ''is new'') (ascii ''a'') (ascii ''New'') 1 None demo_world =
     (Some Issue_DoesNotExist, demo_world)"
    using b issues(2) by blast
  have k: "telegram_backend_send_alert ?et (ascii ''TOKEN'')
     (ascii ''42'') 9 (ascii ''is new'') (ascii ''a'') (ascii ''New'') 1 None demo_world =
     (Some (OtherException (ascii ''DoesNotExist'')
             (ascii ''Project matching query does not exist.'')), demo_world)"
    using c issues(3) demo_alert_text_broken [of "Inl demo_timeout"] by blast
  have g: "telegram_backend_send_alert ?et (ascii ''TOKEN'')
     (ascii ''42'') 7 (ascii ''is new'') (ascii ''a'') (ascii ''New'') 1 None demo_world =
     send_telegram_message ?et (ascii ''TOKEN'')
       \<lparr>chat_id = ascii ''42'', message_text = ?t, disable_web_page_preview = True\<rparr> 1
       demo_world"
    using d issues(1) demo_alert_text [of "Inl demo_timeout"] by blast
  show ?thesis
    using s1 s2 issues row t1 t2 o1 o2 r m k g
      demo_alert_text [of "Inl demo_timeout"] demo_alert_text_broken [of "Inl demo_timeout"]
    by blast
qed

text \<open>
  Claim C2. For a text of any length, the truncated message has at most 4000 code points.
  A text longer than 4000 becomes its first \<open>4000 - 3\<close> code points followed by three
  dots, which is exactly 4000 long; a text of at most 4000 is returned unchanged.
\<close>

theorem truncate_message_bounded:
  "length (truncate_message txt 4000) \<le> 4000 \<and>
   (length txt > 4000 \<longrightarrow>
      truncate_message txt 4000 = take (4000 - 3) txt @ ascii ''...'' \<and>
      length (truncate_message txt 4000) = 4000) \<and>
   (length txt \<le> 4000 \<longrightarrow> truncate_message txt 4000 = txt)"
  by (simp add: truncate_message_def py_slice_to_def ascii_def)

theorem truncate_message_bounded_witness:
  "length (replicate 4001 (97::nat)) > 4000 \<and>
   truncate_message (replicate 4001 97) 4000 = replicate 3997 97 @ ascii ''...'' \<and>
   length (truncate_message (replicate 4001 97) 4000) = 4000 \<and>
   length (ascii ''hello'') \<le> 4000 \<and>
   truncate_message (ascii ''hello'') 4000 = ascii ''hello''"
  using truncate_message_bounded [of "replicate 4001 97"]
    truncate_message_bounded [of "ascii ''hello''"]
  by (simp add: ascii_def)

text \<open>
  Claim C3, as stated, fails after a failure without a response (a timeout): the
  timestamp is populated and the status code is null, a mix of populated and null fields.
\<close>

theorem failure_fields_partial_counterexample:
  "map_option last_failure_timestamp
     (config_after (store_failure_info (demo_env (Inl demo_timeout)) 1 demo_timeout None
        demo_world) 1) = Some (Some 1700000000) \<and>
   map_option last_failure_status_code
     (config_after (store_failure_info (demo_env (Inl demo_timeout)) 1 demo_timeout None
        demo_world) 1) = Some None"
proof -
  have "store_failure_info (demo_env (Inl demo_timeout)) 1 demo_timeout None demo_world =
     (None, demo_world\<lparr>MessagingServiceConfig_objects :=
        (MessagingServiceConfig_objects demo_world)(1 \<mapsto>
          demo_config\<lparr>last_failure_timestamp := Some 1700000000,
             last_failure_error_type := Some (ascii ''ReadTimeout''),
             last_failure_error_message := Some (ascii ''Read timed out. (read timeout=5)''),
             last_failure_status_code := None,
             last_failure_response_text := None,
             last_failure_is_json := None\<rparr>)\<rparr>)"
    by (rule store_failure_info_no_response_saved [where c = demo_config])
       (simp_all add: demo_world_def demo_env_def demo_timeout_def demo_save_error_def
          demo_config_def unencodable_def surrogate_def ascii_def)
  then show ?thesis by (simp add: config_after_def)
qed

text \<open>
  Claim C3, amended. On an existing row, a success write that the database takes leaves
  the six failure fields null. A failure write that completes (the database takes the row,
  and \<^verbatim>\<open>json.loads\<close> on the body of a response returns or raises \<^verbatim>\<open>ValueError\<close>)
  overwrites all six from this one attempt: timestamp, error type and error message are
  populated, and status code, response text (first 2000 code points) and JSON flag are
  populated together when a response is passed and null together when none is. No field
  keeps a value of an earlier attempt. A write that raises leaves the state as it was.
\<close>

theorem failure_fields_after_write:
  assumes "MessagingServiceConfig_objects w i = Some c"
  shows
   "(save_error e (c\<lparr>last_failure_timestamp := None,
             last_failure_error_type := None,
             last_failure_error_message := None,
             last_failure_status_code := None,
             last_failure_response_text := None,
             last_failure_is_json := None\<rparr>) = None \<longrightarrow>
       fst (store_success_info e i w) = None \<and>
       config_after (store_success_info e i w) i =
         Some (c\<lparr>last_failure_timestamp := None,
             last_failure_error_type := None,
             last_failure_error_message := None,
             last_failure_status_code := None,
             last_failure_response_text := None,
             last_failure_is_json := None\<rparr>)) \<and>
    ((\<forall>r name msg. resp = Some r \<longrightarrow> json_loads e (body_text r) \<noteq> Raises name msg) \<and>
     save_error e (c\<lparr>last_failure_timestamp := Some (now e),
             last_failure_error_type := Some (exn_type_name x),
             last_failure_error_message := Some (exn_str x),
             last_failure_status_code := map_option status_code resp,
             last_failure_response_text := map_option (\<lambda>r. take 2000 (body_text r)) resp,
             last_failure_is_json :=
               map_option (\<lambda>r. decodes (json_loads e (body_text r))) resp\<rparr>) = None \<longrightarrow>
       fst (store_failure_info e i x resp w) = None \<and>
       config_after (store_failure_info e i x resp w) i =
         Some (c\<lparr>last_failure_timestamp := Some (now e),
             last_failure_error_type := Some (exn_type_name x),
             last_failure_error_message := Some (exn_str x),
             last_failure_status_code := map_option status_code resp,
             last_failure_response_text := map_option (\<lambda>r. take 2000 (body_text r)) resp,
             last_failure_is_json :=
               map_option (\<lambda>r. decodes (json_loads e (body_text r))) resp\<rparr>)) \<and>
    (fst (store_success_info e i w) \<noteq> None \<longrightarrow> snd (store_success_info e i w) = w) \<and>
    (fst (store_failure_info e i x resp w) \<noteq> None \<longrightarrow>
       snd (store_failure_info e i x resp w) = w)"
proof (intro conjI impI)
  assume "save_error e (c\<lparr>last_failure_timestamp := None,
             last_failure_error_type := None,
             last_failure_error_message := None,
             last_failure_status_code := None,
             last_failure_response_text := None,
             last_failure_is_json := None\<rparr>) = None"
  then have s: "store_success_info e i w =
     (None, w\<lparr>MessagingServiceConfig_objects :=
                (MessagingServiceConfig_objects w)(i \<mapsto> clear_failure_status c)\<rparr>)"
    using assms by (intro store_success_info_saved) (simp_all add: clear_failure_status_def)
  show "fst (store_success_info e i w) = None" using s by simp
  show "config_after (store_success_info e i w) i =
         Some (c\<lparr>last_failure_timestamp := None,
             last_failure_error_type := None,
             last_failure_error_message := None,
             last_failure_status_code := None,
             last_failure_response_text := None,
             last_failure_is_json := None\<rparr>)"
    using s by (simp add: config_after_def clear_failure_status_def)
next
  let ?row = "c\<lparr>last_failure_timestamp := Some (now e),
             last_failure_error_type := Some (exn_type_name x),
             last_failure_error_message := Some (exn_str x),
             last_failure_status_code := map_option status_code resp,
             last_failure_response_text := map_option (\<lambda>r. take 2000 (body_text r)) resp,
             last_failure_is_json :=
               map_option (\<lambda>r. decodes (json_loads e (body_text r))) resp\<rparr>"
  assume "(\<forall>r name msg. resp = Some r \<longrightarrow> json_loads e (body_text r) \<noteq> Raises name msg) \<and>
     save_error e ?row = None"
  then have s: "store_failure_info e i x resp w =
     (None, w\<lparr>MessagingServiceConfig_objects := (MessagingServiceConfig_objects w)(i \<mapsto> ?row)\<rparr>)"
    using assms by (intro store_failure_info_saved) auto
  show "fst (store_failure_info e i x resp w) = None" using s by simp
  show "config_after (store_failure_info e i x resp w) i = Some ?row"
    using s by (simp add: config_after_def)
next
  assume "fst (store_success_info e i w) \<noteq> None"
  then show "snd (store_success_info e i w) = w"
    using store_success_info_state [of e i w] by simp
next
  assume "fst (store_failure_info e i x resp w) \<noteq> None"
  then show "snd (store_failure_info e i x resp w) = w"
    using store_failure_info_state [of e i x resp w] by simp
qed

theorem failure_fields_after_write_witness:
  "MessagingServiceConfig_objects demo_failed_world 1 = Some demo_failed_config \<and>
   fst (store_success_info (demo_env (Inl demo_timeout)) 1 demo_failed_world) = None \<and>
   config_after (store_success_info (demo_env (Inl demo_timeout)) 1 demo_failed_world) 1 =
     Some demo_config \<and>
   fst (store_failure_info (demo_env (Inl demo_timeout)) 1
          (RequestException (ascii ''ConnectionError'') (ascii ''Connection refused'') None) None
          demo_failed_world) = None \<and>
   config_after
     (store_failure_info (demo_env (Inl demo_timeout)) 1
        (RequestException (ascii ''ConnectionError'') (ascii ''Connection refused'') None) None
        demo_failed_world) 1 =
     Some (demo_config\<lparr>last_failure_timestamp := Some 1700000000,
             last_failure_error_type := Some (ascii ''ConnectionError''),
             last_failure_error_message := Some (ascii ''Connection refused'')\<rparr>) \<and>
   fst (store_success_info demo_locked_env 1 demo_failed_world) \<noteq> None \<and>
   snd (store_success_info demo_locked_env 1 demo_failed_world) = demo_failed_world \<and>
   fst (store_failure_info demo_locked_env 1 demo_timeout None demo_failed_world) \<noteq> None \<and>
   snd (store_failure_info demo_locked_env 1 demo_timeout None demo_failed_world) =
     demo_failed_world"
proof -
  have row: "MessagingServiceConfig_objects demo_failed_world 1 = Some demo_failed_config"
    by (simp add: demo_failed_world_def)
  have locked1: "fst (store_success_info demo_locked_env 1 demo_failed_world) \<noteq> None"
    using row
      store_success_info_refused [where w = demo_failed_world and i = 1
        and c = demo_failed_config and e = demo_locked_env
        and name = "ascii ''OperationalError''" and msg = "ascii ''database is locked''"]
    by (simp add: demo_locked_env_def)
  have locked2: "fst (store_failure_info demo_locked_env 1 demo_timeout None demo_failed_world)
      \<noteq> None"
    using row
      store_failure_info_no_response_refused [where w = demo_failed_world and i = 1
        and c = demo_failed_config and e = demo_locked_env and x = demo_timeout
        and name = "ascii ''OperationalError''" and msg = "ascii ''database is locked''",
        OF _ refl]
    by (simp add: demo_locked_env_def)
  show ?thesis
    using row locked1 locked2
      failure_fields_after_write
        [where w = demo_failed_world and i = 1 and c = demo_failed_config
           and e = "demo_env (Inl demo_timeout)" and resp = None
           and x = "RequestException (ascii ''ConnectionError'')
                      (ascii ''Connection refused'') None"]
      failure_fields_after_write
        [where w = demo_failed_world and i = 1 and c = demo_failed_config
           and e = demo_locked_env and resp = None and x = demo_timeout]
    by (simp add: demo_failed_config_def demo_config_def demo_env_def demo_save_error_def
          unencodable_def surrogate_def ascii_def)
qed

text \<open>
  Claim C4. When no row has the correlation id, recording a failure and recording a success
  both return normally and leave the whole state as it was: no row is created or changed.
\<close>

theorem lookup_miss_is_noop:
  "MessagingServiceConfig_objects w i = None \<Longrightarrow>
   store_failure_info e i x r w = (None, w) \<and> store_success_info e i w = (None, w)"
  by (simp add: store_failure_info_absent store_success_info_absent)

theorem lookup_miss_is_noop_witness:
  "MessagingServiceConfig_objects demo_world 2 = None \<and>
   store_failure_info (demo_env (Inl demo_timeout)) 2 demo_timeout None demo_world =
     (None, demo_world) \<and>
   store_success_info (demo_env (Inl demo_timeout)) 2 demo_world = (None, demo_world)"
  using lookup_miss_is_noop
          [where w = demo_world and i = 2 and e = "demo_env (Inl demo_timeout)"
             and x = demo_timeout and r = None]
  by (simp add: demo_world_def)

text \<open>
  Claim C5, as stated, fails when the database refuses the row. The answer is status 200
  with \<^verbatim>\<open>ok\<close> false and a description that is a lone surrogate; the description becomes
  the error message, \<^verbatim>\<open>config.save()\<close> raises inside the handler, the exception leaves the
  function and the row has no failure on record.
\<close>

theorem application_failure_unstorable_counterexample:
  "fst (send_telegram_message (demo_env (Inr demo_response_200_surrogate)) (ascii ''TOKEN'')
          demo_payload 1 demo_world) =
     Some (OtherException (ascii ''UnicodeEncodeError'') (ascii ''surrogates not allowed'')) \<and>
   map_option last_failure_timestamp
     (config_after
        (send_telegram_message (demo_env (Inr demo_response_200_surrogate)) (ascii ''TOKEN'')
           demo_payload 1 demo_world) 1) = Some None \<and>
   map_option last_failure_status_code
     (config_after
        (send_telegram_message (demo_env (Inr demo_response_200_surrogate)) (ascii ''TOKEN'')
           demo_payload 1 demo_world) 1) = Some None"
  unfolding demo_surrogate_run
  by (simp add: config_after_def posted_objects demo_world_def demo_config_def)

text \<open>
  Claim C5, amended. When the call returns status 200 and a decoded JSON object whose
  \<^verbatim>\<open>ok\<close> is \<^verbatim>\<open>False\<close>, the failure row is built in spite of the status: error type
  \<^verbatim>\<open>HTTPError\<close>, status code 200, the first 2000 code points of the body, the JSON flag of
  the body, and as error message the description of the body (the string itself;
  \<^verbatim>\<open>repr\<close> of a description that is no string) or \<^verbatim>\<open>Telegram API error\<close> when there is
  none. When the database takes the row, it is recorded and the function returns; when
  \<^verbatim>\<open>config.save()\<close> raises, that exception leaves the function and the row is as it was.
\<close>

theorem application_failure_recorded:
  assumes "MessagingServiceConfig_objects w i = Some c"
    and "requests_post e (sendMessage_url tok) pl 5 = Inr r"
    and "status_code r = 200"
    and "json_method r = Returns (JObj kvs)"
    and "map_of kvs (ascii ''ok'') = Some (JBool False)"
    and "\<forall>name msg. json_loads e (body_text r) \<noteq> Raises name msg"
    and "row = c\<lparr>last_failure_timestamp := Some (now e),
                  last_failure_error_type := Some (ascii ''HTTPError''),
                  last_failure_error_message :=
                    Some (case map_of kvs (ascii ''description'') of
                            None \<Rightarrow> ascii ''Telegram API error''
                          | Some (JStr d) \<Rightarrow> d
                          | Some v \<Rightarrow> py_repr e v),
                  last_failure_status_code := Some 200,
                  last_failure_response_text := Some (take 2000 (body_text r)),
                  last_failure_is_json := Some (decodes (json_loads e (body_text r)))\<rparr>"
  shows "(save_error e row = None \<longrightarrow>
            fst (send_telegram_message e tok pl i w) = None \<and>
            config_after (send_telegram_message e tok pl i w) i = Some row) \<and>
         (save_error e row = Some (name, msg) \<longrightarrow>
            fst (send_telegram_message e tok pl i w) = Some (OtherException name msg) \<and>
            config_after (send_telegram_message e tok pl i w) i = Some c)"
proof -
  let ?d = "py_str e (case map_of kvs (ascii ''description'') of
                             None \<Rightarrow> JStr (ascii ''Telegram API error'')
                           | Some d \<Rightarrow> d)"
  let ?x = "RequestException (ascii ''HTTPError'') ?d (Some r)"
  have "send_telegram_message_try e tok pl i w = (Some ?x, posted e tok pl w)"
    using assms(2-5) by (simp add: try_ok_false)
  then have send: "send_telegram_message e tok pl i w =
          store_failure_info e i ?x (Some r) (posted e tok pl w)"
    by (rule send_of_try_request_exception)
  have d: "?d = (case map_of kvs (ascii ''description'') of
                             None \<Rightarrow> ascii ''Telegram API error''
                           | Some (JStr d) \<Rightarrow> d
                           | Some v \<Rightarrow> py_repr e v)"
    by (simp add: py_str_def split: option.splits json.splits)
  have row: "row = c\<lparr>last_failure_timestamp := Some (now e),
                  last_failure_error_type := Some (exn_type_name ?x),
                  last_failure_error_message := Some (exn_str ?x),
                  last_failure_status_code := Some (status_code r),
                  last_failure_response_text := Some (take 2000 (body_text r)),
                  last_failure_is_json := Some (decodes (json_loads e (body_text r)))\<rparr>"
    using assms(3,7) d by simp
  have obj: "MessagingServiceConfig_objects (posted e tok pl w) i = Some c"
    using assms(1) by (simp add: posted_objects)
  show ?thesis
  proof (intro conjI impI)
    assume "save_error e row = None"
    then have "store_failure_info e i ?x (Some r) (posted e tok pl w) =
       (None, (posted e tok pl w)\<lparr>MessagingServiceConfig_objects :=
          (MessagingServiceConfig_objects (posted e tok pl w))(i \<mapsto> row)\<rparr>)"
      using obj assms(6) row by (intro store_failure_info_response_saved [where c = c])
    then show "fst (send_telegram_message e tok pl i w) = None"
      and "config_after (send_telegram_message e tok pl i w) i = Some row"
      using send by (simp_all add: config_after_def)
  next
    assume "save_error e row = Some (name, msg)"
    then have "store_failure_info e i ?x (Some r) (posted e tok pl w) =
       (Some (OtherException name msg), posted e tok pl w)"
      using obj assms(6) row by (intro store_failure_info_response_refused [where c = c])
    then show "fst (send_telegram_message e tok pl i w) = Some (OtherException name msg)"
      and "config_after (send_telegram_message e tok pl i w) i = Some c"
      using send assms(1) by (simp_all add: config_after_def posted_objects)
  qed
qed

theorem application_failure_recorded_witness:
  "MessagingServiceConfig_objects demo_world 1 = Some demo_config \<and>
   requests_post (demo_env (Inr demo_response_200_not_ok)) (sendMessage_url (ascii ''TOKEN''))
     demo_payload 5 = Inr demo_response_200_not_ok \<and>
   status_code demo_response_200_not_ok = 200 \<and>
   json_method demo_response_200_not_ok =
     Returns (JObj [(ascii ''ok'', JBool False),
                    (ascii ''description'', JStr (ascii ''chat not found''))]) \<and>
   fst (send_telegram_message (demo_env (Inr demo_response_200_not_ok)) (ascii ''TOKEN'')
        demo_payload 1 demo_world) = None \<and>
   config_after
     (send_telegram_message (demo_env (Inr demo_response_200_not_ok)) (ascii ''TOKEN'')
        demo_payload 1 demo_world) 1 =
     Some (demo_config\<lparr>last_failure_timestamp := Some 1700000000,
             last_failure_error_type := Some (ascii ''HTTPError''),
             last_failure_error_message := Some (ascii ''chat not found''),
             last_failure_status_code := Some 200,
             last_failure_response_text := Some body_chat_not_found,
             last_failure_is_json := Some True\<rparr>) \<and>
   json_method demo_response_200_surrogate =
     Returns (JObj [(ascii ''ok'', JBool False), (ascii ''description'', JStr [55296])]) \<and>
   fst (send_telegram_message (demo_env (Inr demo_response_200_surrogate)) (ascii ''TOKEN'')
        demo_payload 1 demo_world) =
     Some (OtherException (ascii ''UnicodeEncodeError'') (ascii ''surrogates not allowed'')) \<and>
   config_after
     (send_telegram_message (demo_env (Inr demo_response_200_surrogate)) (ascii ''TOKEN'')
        demo_payload 1 demo_world) 1 = Some demo_config"
proof -
  have len: "take 2000 body_chat_not_found = body_chat_not_found"
      "take 2000 body_surrogate = body_surrogate"
    by (simp_all add: body_chat_not_found_def body_surrogate_def ascii_def)
  have ok: "demo_save_error
     (demo_config\<lparr>last_failure_timestamp := Some 1700000000,
             last_failure_error_type := Some (ascii ''HTTPError''),
             last_failure_error_message := Some (ascii ''chat not found''),
             last_failure_status_code := Some 200,
             last_failure_response_text := Some body_chat_not_found,
             last_failure_is_json := Some True\<rparr>) = None"
    by (simp add: demo_save_error_def demo_config_def unencodable_def surrogate_def
          body_chat_not_found_def ascii_def)
  have refused: "demo_save_error
     (demo_config\<lparr>last_failure_timestamp := Some 1700000000,
             last_failure_error_type := Some (ascii ''HTTPError''),
             last_failure_error_message := Some [55296],
             last_failure_status_code := Some 200,
             last_failure_response_text := Some body_surrogate,
             last_failure_is_json := Some True\<rparr>) =
       Some (ascii ''UnicodeEncodeError'', ascii ''surrogates not allowed'')"
    by (simp add: demo_save_error_def unencodable_def surrogate_def)
  show ?thesis
    using len ok refused
      application_failure_recorded
        [where w = demo_world and i = 1 and c = demo_config
           and e = "demo_env (Inr demo_response_200_not_ok)" and tok = "ascii ''TOKEN''"
           and pl = demo_payload and r = demo_response_200_not_ok
           and kvs = "[(ascii ''ok'', JBool False),
                       (ascii ''description'', JStr (ascii ''chat not found''))]",
         OF _ _ _ _ _ _ refl]
      application_failure_recorded
        [where w = demo_world and i = 1 and c = demo_config
           and e = "demo_env (Inr demo_response_200_surrogate)" and tok = "ascii ''TOKEN''"
           and pl = demo_payload and r = demo_response_200_surrogate
           and kvs = "[(ascii ''ok'', JBool False), (ascii ''description'', JStr [55296])]"
           and name = "ascii ''UnicodeEncodeError''" and msg = "ascii ''surrogates not allowed''",
         OF _ _ _ _ _ _ refl]
    by (simp add: demo_world_def demo_env_def demo_response_200_not_ok_def
          demo_response_200_surrogate_def json_chat_not_found_def json_surrogate_def
          demo_loads_chat_not_found demo_loads_surrogate ascii_def)
qed

text \<open>
  Claim C6, as stated, fails in two places. A status of 600 is at least 400, but
  \<^verbatim>\<open>raise_for_status\<close> raises only from 400 to 599: the attempt is recorded as a success
  and clears the failure on record. And the error message of an error status is the status
  line text of \<^verbatim>\<open>requests\<close>, built from the reason phrase, not from the body: a 401 with
  the body of the claim and an empty reason phrase records a message without
  \<^verbatim>\<open>Unauthorized\<close>.
\<close>

theorem http_error_counterexample:
  "map_option last_failure_timestamp
     (config_after
        (send_telegram_message (demo_env (Inr demo_response_600)) (ascii ''TOKEN'') demo_payload 1
           demo_failed_world) 1) = Some None \<and>
   map_option last_failure_status_code
     (config_after
        (send_telegram_message (demo_env (Inr demo_response_600)) (ascii ''TOKEN'') demo_payload 1
           demo_failed_world) 1) = Some None \<and>
   map_option last_failure_error_message
     (config_after
        (send_telegram_message (demo_env (Inr demo_response_401_bare)) (ascii ''TOKEN'')
           demo_payload 1 demo_world) 1) =
     Some (Some (ascii
       ''401 Client Error:  for url: https://api.telegram.org/botTOKEN/sendMessage'')) \<and>
   \<not> sublist (ascii ''Unauthorized'')
        (ascii ''401 Client Error:  for url: https://api.telegram.org/botTOKEN/sendMessage'')"
proof -
  let ?e6 = "demo_env (Inr demo_response_600)"
  have "send_telegram_message_try ?e6 (ascii ''TOKEN'') demo_payload 1 demo_failed_world =
        store_success_info ?e6 1 (posted ?e6 (ascii ''TOKEN'') demo_payload demo_failed_world)"
    by (rule try_ok_not_false [where r = demo_response_600 and kvs = "[]"])
       (simp_all add: demo_env_def demo_response_600_def)
  moreover have "save_error ?e6 (clear_failure_status demo_failed_config) = None"
    by (simp add: demo_env_def demo_save_error_def clear_failure_status_def
          demo_failed_config_def unencodable_def surrogate_def ascii_def)
  ultimately have "send_telegram_message ?e6 (ascii ''TOKEN'') demo_payload 1 demo_failed_world =
     (None, (posted ?e6 (ascii ''TOKEN'') demo_payload demo_failed_world)
        \<lparr>MessagingServiceConfig_objects :=
              (MessagingServiceConfig_objects demo_failed_world)(1 \<mapsto>
                 clear_failure_status demo_failed_config)\<rparr>)"
    by (intro send_of_try_success) (simp_all add: demo_failed_world_def)
  then have a: "config_after (send_telegram_message ?e6 (ascii ''TOKEN'') demo_payload 1
      demo_failed_world) 1 = Some (clear_failure_status demo_failed_config)"
    by (simp add: config_after_def)
  let ?e4 = "demo_env (Inr demo_response_401_bare)"
  let ?x = "RequestException (ascii ''HTTPError'')
           (str_int 401 @ ascii '' Client Error: '' @ [] @ ascii '' for url: ''
              @ sendMessage_url (ascii ''TOKEN''))
           (Some demo_response_401_bare)"
  have msg: "str_int 401 @ ascii '' Client Error: '' @ [] @ ascii '' for url: ''
                @ sendMessage_url (ascii ''TOKEN'') =
             ascii ''401 Client Error:  for url: https://api.telegram.org/botTOKEN/sendMessage''"
    by (simp add: str_int_def digits.simps sendMessage_url_def ascii_def)
  have "send_telegram_message_try ?e4 (ascii ''TOKEN'') demo_payload 1 demo_world =
        (Some ?x, posted ?e4 (ascii ''TOKEN'') demo_payload demo_world)"
    using try_http_error [where r = demo_response_401_bare
        and e = ?e4 and tok = "ascii ''TOKEN''"
        and pl = demo_payload and i = 1 and w = demo_world]
    by (simp add: demo_env_def demo_response_401_bare_def demo_response_401_def)
  then have send: "send_telegram_message ?e4 (ascii ''TOKEN'') demo_payload 1 demo_world =
        store_failure_info ?e4 1 ?x (Some demo_response_401_bare)
          (posted ?e4 (ascii ''TOKEN'') demo_payload demo_world)"
    by (rule send_of_try_request_exception)
  have "store_failure_info ?e4 1 ?x (Some demo_response_401_bare)
          (posted ?e4 (ascii ''TOKEN'') demo_payload demo_world) =
        (None, (posted ?e4 (ascii ''TOKEN'') demo_payload demo_world)
           \<lparr>MessagingServiceConfig_objects :=
              (MessagingServiceConfig_objects (posted ?e4 (ascii ''TOKEN'') demo_payload demo_world))
              (1 \<mapsto> demo_config\<lparr>last_failure_timestamp := Some (now ?e4),
                  last_failure_error_type := Some (exn_type_name ?x),
                  last_failure_error_message := Some (exn_str ?x),
                  last_failure_status_code := Some (status_code demo_response_401_bare),
                  last_failure_response_text := Some (take 2000 (body_text demo_response_401_bare)),
                  last_failure_is_json :=
                    Some (decodes (json_loads ?e4 (body_text demo_response_401_bare)))\<rparr>)\<rparr>)"
  proof (rule store_failure_info_response_saved [where c = demo_config, OF _ _ refl])
    show "MessagingServiceConfig_objects (posted ?e4 (ascii ''TOKEN'') demo_payload demo_world) 1
        = Some demo_config"
      by (simp add: posted_objects demo_world_def)
    show "\<forall>name msg. json_loads ?e4 (body_text demo_response_401_bare) \<noteq> Raises name msg"
      by (simp add: demo_env_def demo_response_401_bare_def demo_response_401_def
            demo_loads_unauthorized)
    show "save_error ?e4
       (demo_config\<lparr>last_failure_timestamp := Some (now ?e4),
                  last_failure_error_type := Some (exn_type_name ?x),
                  last_failure_error_message := Some (exn_str ?x),
                  last_failure_status_code := Some (status_code demo_response_401_bare),
                  last_failure_response_text := Some (take 2000 (body_text demo_response_401_bare)),
                  last_failure_is_json :=
                    Some (decodes (json_loads ?e4 (body_text demo_response_401_bare)))\<rparr>) = None"
      by (simp add: demo_env_def demo_response_401_bare_def demo_response_401_def
            demo_save_error_def demo_config_def unencodable_def surrogate_def
            body_unauthorized_def str_int_def digits.simps sendMessage_url_def ascii_def)
  qed
  then have b: "map_option last_failure_error_message
     (config_after (send_telegram_message ?e4 (ascii ''TOKEN'') demo_payload 1 demo_world) 1) =
     Some (Some (ascii
       ''401 Client Error:  for url: https://api.telegram.org/botTOKEN/sendMessage''))"
    unfolding send using msg by (simp add: config_after_def)
  have c: "\<not> sublist (ascii ''Unauthorized'')
        (ascii ''401 Client Error:  for url: https://api.telegram.org/botTOKEN/sendMessage'')"
    by code_simp
  show ?thesis
    using a b c by (simp add: clear_failure_status_def)
qed

text \<open>
  Claim C6, amended. When the call returns a status from 400 to 599, \<^verbatim>\<open>result.json()\<close>
  and \<^verbatim>\<open>json.loads\<close> return or raise \<^verbatim>\<open>ValueError\<close> on the body, and the database takes
  the row, a failure is recorded with error type \<^verbatim>\<open>HTTPError\<close>, the status code, the first
  2000 code points of the body, the JSON flag true exactly when \<^verbatim>\<open>json.loads\<close> decodes the
  body, and the error message \<^verbatim>\<open>"<status> Client Error: <reason> for url: <url>"\<close>
  (\<^verbatim>\<open>Server Error\<close> from 500 on), which contains the reason phrase of the response.
\<close>

theorem http_error_recorded:
  assumes "MessagingServiceConfig_objects w i = Some c"
    and "requests_post e (sendMessage_url tok) pl 5 = Inr r"
    and "400 \<le> status_code r" and "status_code r < 600"
    and "\<forall>name msg. json_method r \<noteq> Raises name msg"
    and "\<forall>name msg. json_loads e (body_text r) \<noteq> Raises name msg"
    and "row = c\<lparr>last_failure_timestamp := Some (now e),
                  last_failure_error_type := Some (ascii ''HTTPError''),
                  last_failure_error_message :=
                    Some (str_int (status_code r)
                          @ (if status_code r < 500 then ascii '' Client Error: ''
                             else ascii '' Server Error: '')
                          @ reason r @ ascii '' for url: '' @ url r),
                  last_failure_status_code := Some (status_code r),
                  last_failure_response_text := Some (take 2000 (body_text r)),
                  last_failure_is_json := Some (decodes (json_loads e (body_text r)))\<rparr>"
    and "save_error e row = None"
  shows "fst (send_telegram_message e tok pl i w) = None \<and>
         config_after (send_telegram_message e tok pl i w) i = Some row \<and>
         sublist (reason r)
           (str_int (status_code r)
              @ (if status_code r < 500 then ascii '' Client Error: ''
                 else ascii '' Server Error: '')
              @ reason r @ ascii '' for url: '' @ url r)"
proof -
  let ?m = "str_int (status_code r)
              @ (if status_code r < 500 then ascii '' Client Error: ''
                 else ascii '' Server Error: '')
              @ reason r @ ascii '' for url: '' @ url r"
  let ?x = "RequestException (ascii ''HTTPError'') ?m (Some r)"
  have "send_telegram_message_try e tok pl i w = (Some ?x, posted e tok pl w)"
    using assms(2,5,3,4) by (rule try_http_error)
  then have send: "send_telegram_message e tok pl i w =
          store_failure_info e i ?x (Some r) (posted e tok pl w)"
    by (rule send_of_try_request_exception)
  have "store_failure_info e i ?x (Some r) (posted e tok pl w) =
       (None, (posted e tok pl w)\<lparr>MessagingServiceConfig_objects :=
          (MessagingServiceConfig_objects (posted e tok pl w))(i \<mapsto> row)\<rparr>)"
    using assms(1,6,7,8)
    by (intro store_failure_info_response_saved [where c = c]) (simp_all add: posted_objects)
  then have "fst (send_telegram_message e tok pl i w) = None"
    and "config_after (send_telegram_message e tok pl i w) i = Some row"
    using send by (simp_all add: config_after_def)
  moreover have "sublist (reason r) ?m"
    unfolding sublist_def
    by (rule exI [of _ "str_int (status_code r)
              @ (if status_code r < 500 then ascii '' Client Error: ''
                 else ascii '' Server Error: '')"],
        rule exI [of _ "ascii '' for url: '' @ url r"]) simp
  ultimately show ?thesis by blast
qed

theorem http_error_recorded_witness:
  "MessagingServiceConfig_objects demo_world 1 = Some demo_config \<and>
   requests_post (demo_env (Inr demo_response_401)) (sendMessage_url (ascii ''TOKEN''))
     demo_payload 5 = Inr demo_response_401 \<and>
   400 \<le> status_code demo_response_401 \<and> status_code demo_response_401 < 600 \<and>
   json_method demo_response_401 = Returns json_unauthorized \<and>
   json_loads (demo_env (Inr demo_response_401)) (body_text demo_response_401) =
     Returns json_unauthorized \<and>
   fst (send_telegram_message (demo_env (Inr demo_response_401)) (ascii ''TOKEN'')
        demo_payload 1 demo_world) = None \<and>
   config_after
     (send_telegram_message (demo_env (Inr demo_response_401)) (ascii ''TOKEN'')
        demo_payload 1 demo_world) 1 =
     Some (demo_config\<lparr>last_failure_timestamp := Some 1700000000,
             last_failure_error_type := Some (ascii ''HTTPError''),
             last_failure_error_message := Some (ascii
               ''401 Client Error: Unauthorized for url: https://api.telegram.org/botTOKEN/sendMessage''),
             last_failure_status_code := Some 401,
             last_failure_response_text := Some body_unauthorized,
             last_failure_is_json := Some True\<rparr>) \<and>
   sublist (ascii ''Unauthorized'') (ascii
     ''401 Client Error: Unauthorized for url: https://api.telegram.org/botTOKEN/sendMessage'')"
proof -
  have len: "take 2000 body_unauthorized = body_unauthorized"
    by (simp add: body_unauthorized_def ascii_def)
  have msg: "str_int 401 @ ascii '' Client Error: '' @ ascii ''Unauthorized''
               @ ascii '' for url: '' @ sendMessage_url (ascii ''TOKEN'') =
             ascii ''401 Client Error: Unauthorized for url: https://api.telegram.org/botTOKEN/sendMessage''"
    by (simp add: str_int_def digits.simps sendMessage_url_def ascii_def)
  have ok: "demo_save_error
     (demo_config\<lparr>last_failure_timestamp := Some 1700000000,
             last_failure_error_type := Some (ascii ''HTTPError''),
             last_failure_error_message := Some (ascii
               ''401 Client Error: Unauthorized for url: https://api.telegram.org/botTOKEN/sendMessage''),
             last_failure_status_code := Some 401,
             last_failure_response_text := Some body_unauthorized,
             last_failure_is_json := Some True\<rparr>) = None"
    by (simp add: demo_save_error_def demo_config_def unencodable_def surrogate_def
          body_unauthorized_def ascii_def)
  show ?thesis
    using len ok
      http_error_recorded
        [where w = demo_world and i = 1 and c = demo_config
           and e = "demo_env (Inr demo_response_401)" and tok = "ascii ''TOKEN''"
           and pl = demo_payload and r = demo_response_401, OF _ _ _ _ _ _ refl]
    by (simp add: demo_world_def demo_response_401_def demo_env_def demo_loads_unauthorized msg)
qed





text \<open>
  Claim C9. The test message for project \<^verbatim>\<open>Acme\<close> and display name \<^verbatim>\<open>Prod Alerts\<close>
  posts exactly one request, whose text is the boilerplate sentence, \<^verbatim>\<open>Project: Acme\<close>
  and \<^verbatim>\<open>Message backend: Prod Alerts\<close>, joined by line feeds: two line feeds, three lines.
  This holds whatever the network answers and whatever the outcome written afterwards.
\<close>

theorem test_message_three_lines:
  "outbox (snd (telegram_backend_send_test_message e tok chat (ascii ''Acme'')
                  (ascii ''Prod Alerts'') i w)) =
     outbox w @
       [\<lparr>req_url = sendMessage_url tok,
         req_json =
           \<lparr>chat_id = chat,
            message_text =
              ascii ''Test message by Bugsink to test the Telegram bot setup.'' @ [10]
              @ ascii ''Project: Acme'' @ [10]
              @ ascii ''Message backend: Prod Alerts'',
            disable_web_page_preview = True\<rparr>,
         req_timeout = 5\<rparr>] \<and>
   count_list
     (ascii ''Test message by Bugsink to test the Telegram bot setup.'' @ [10]
      @ ascii ''Project: Acme'' @ [10]
      @ ascii ''Message backend: Prod Alerts'') 10 = 2"
proof -
  have composed: "truncate_message
          (join [10] [ascii ''Test message by Bugsink to test the Telegram bot setup.'',
                      ascii ''Project: '' @ ascii ''Acme'',
                      ascii ''Message backend: '' @ ascii ''Prod Alerts'']) 4000 =
        ascii ''Test message by Bugsink to test the Telegram bot setup.'' @ [10]
          @ ascii ''Project: Acme'' @ [10]
          @ ascii ''Message backend: Prod Alerts''"
    by (simp add: truncate_message_def ascii_def)
  have lines: "count_list
     (ascii ''Test message by Bugsink to test the Telegram bot setup.'' @ [10]
      @ ascii ''Project: Acme'' @ [10]
      @ ascii ''Message backend: Prod Alerts'') 10 = 2"
    by (simp add: ascii_def)
  have "telegram_backend_send_test_message e tok chat (ascii ''Acme'') (ascii ''Prod Alerts'')
            i w =
        send_telegram_message e tok
          \<lparr>chat_id = chat,
           message_text =
             ascii ''Test message by Bugsink to test the Telegram bot setup.'' @ [10]
             @ ascii ''Project: Acme'' @ [10]
             @ ascii ''Message backend: Prod Alerts'',
           disable_web_page_preview = True\<rparr> i w"
    unfolding telegram_backend_send_test_message_def Let_def composed ..
  then show ?thesis
    using lines send_telegram_message_state [of e tok _ i w] by simp
qed

theorem test_message_three_lines_witness:
  "outbox (snd (telegram_backend_send_test_message (demo_env (Inl demo_timeout))
                  (ascii ''TOKEN'') (ascii ''42'') (ascii ''Acme'') (ascii ''Prod Alerts'') 1
                  demo_world)) =
     [\<lparr>req_url = sendMessage_url (ascii ''TOKEN''),
       req_json =
         \<lparr>chat_id = ascii ''42'',
          message_text =
            ascii ''Test message by Bugsink to test the Telegram bot setup.'' @ [10]
            @ ascii ''Project: Acme'' @ [10]
            @ ascii ''Message backend: Prod Alerts'',
          disable_web_page_preview = True\<rparr>,
       req_timeout = 5\<rparr>]"
  using test_message_three_lines
          [of "demo_env (Inl demo_timeout)" "ascii ''TOKEN''" "ascii ''42''" 1 demo_world]
  by (simp add: demo_world_def)

text \<open>
  Claim C10, as stated, fails on a JSON body that is not an object. The answer is status
  200 with the body \<^verbatim>\<open>[1]\<close>: it has no key \<^verbatim>\<open>ok\<close>, but a list has no \<^verbatim>\<open>get\<close>, the call
  raises \<^verbatim>\<open>AttributeError\<close> and a failure is recorded, not a success.
\<close>

theorem non_object_body_counterexample:
  "map_option last_failure_error_type
     (config_after
        (send_telegram_message (demo_env (Inr demo_response_200_list)) (ascii ''TOKEN'')
           demo_payload 1 demo_world) 1) = Some (Some (ascii ''AttributeError'')) \<and>
   map_option last_failure_timestamp
     (config_after
        (send_telegram_message (demo_env (Inr demo_response_200_list)) (ascii ''TOKEN'')
           demo_payload 1 demo_world) 1) = Some (Some 1700000000)"
  unfolding demo_list_run by (simp add: config_after_def)

text \<open>
  Claim C10, amended. For a status below 400 and a body that \<^verbatim>\<open>result.json()\<close> decodes:
  when the body is null, or an object whose key \<^verbatim>\<open>ok\<close> is missing or has any value other
  than \<^verbatim>\<open>False\<close>, the attempt takes the success path, and the six failure fields are
  cleared when the database takes the row; when the body is an object whose \<^verbatim>\<open>ok\<close> is
  \<^verbatim>\<open>False\<close>, the failure recorded is the application failure (\<^verbatim>\<open>HTTPError\<close>); when the body
  is any other value (a list, a string, a number, a boolean), the failure recorded is an
  \<^verbatim>\<open>AttributeError\<close>.
\<close>

theorem only_ok_false_is_application_failure:
  assumes "MessagingServiceConfig_objects w i = Some c"
    and "requests_post e (sendMessage_url tok) pl 5 = Inr r"
    and "status_code r < 400"
    and "json_method r = Returns v"
  shows "((v = JNull \<or> (v = JObj kvs \<and> map_of kvs (ascii ''ok'') \<noteq> Some (JBool False))) \<and>
          save_error e (c\<lparr>last_failure_timestamp := None,
                      last_failure_error_type := None,
                      last_failure_error_message := None,
                      last_failure_status_code := None,
                      last_failure_response_text := None,
                      last_failure_is_json := None\<rparr>) = None \<longrightarrow>
            fst (send_telegram_message e tok pl i w) = None \<and>
            config_after (send_telegram_message e tok pl i w) i =
              Some (c\<lparr>last_failure_timestamp := None,
                      last_failure_error_type := None,
                      last_failure_error_message := None,
                      last_failure_status_code := None,
                      last_failure_response_text := None,
                      last_failure_is_json := None\<rparr>)) \<and>
         (v = JObj kvs \<and> map_of kvs (ascii ''ok'') = Some (JBool False) \<and>
          fst (send_telegram_message e tok pl i w) = None \<longrightarrow>
            map_option last_failure_error_type
              (config_after (send_telegram_message e tok pl i w) i) =
              Some (Some (ascii ''HTTPError''))) \<and>
         (v \<noteq> JNull \<and> (\<forall>xs. v \<noteq> JObj xs) \<and>
          fst (send_telegram_message e tok pl i w) = None \<longrightarrow>
            map_option last_failure_error_type
              (config_after (send_telegram_message e tok pl i w) i) =
              Some (Some (ascii ''AttributeError'')))"
proof (intro conjI impI)
  let ?cleared = "c\<lparr>last_failure_timestamp := None,
                      last_failure_error_type := None,
                      last_failure_error_message := None,
                      last_failure_status_code := None,
                      last_failure_response_text := None,
                      last_failure_is_json := None\<rparr>"
  assume a: "(v = JNull \<or> (v = JObj kvs \<and> map_of kvs (ascii ''ok'') \<noteq> Some (JBool False))) \<and>
          save_error e ?cleared = None"
  have "send_telegram_message_try e tok pl i w = store_success_info e i (posted e tok pl w)"
  proof (cases "v = JNull")
    case True
    then show ?thesis using assms(2-4) by (intro try_no_body) auto
  next
    case False
    then show ?thesis using a assms(2-4) by (intro try_ok_not_false [where kvs = kvs]) auto
  qed
  moreover have "save_error e (clear_failure_status c) = None"
    using a by (simp add: clear_failure_status_def)
  ultimately have s: "send_telegram_message e tok pl i w =
     (None, (posted e tok pl w)\<lparr>MessagingServiceConfig_objects :=
              (MessagingServiceConfig_objects w)(i \<mapsto> clear_failure_status c)\<rparr>)"
    using assms(1) by (intro send_of_try_success)
  show "fst (send_telegram_message e tok pl i w) = None" using s by simp
  show "config_after (send_telegram_message e tok pl i w) i = Some ?cleared"
    using s by (simp add: config_after_def clear_failure_status_def)
next
  assume a: "v = JObj kvs \<and> map_of kvs (ascii ''ok'') = Some (JBool False) \<and>
          fst (send_telegram_message e tok pl i w) = None"
  then have "\<exists>msg. fst (send_telegram_message_try e tok pl i w) =
          Some (RequestException (ascii ''HTTPError'') msg (Some r))"
    using assms(2-4) try_ok_false [where e = e and tok = tok and pl = pl and r = r
        and kvs = kvs and i = i and w = w] by auto
  then obtain msg where "fst (send_telegram_message_try e tok pl i w) =
          Some (RequestException (ascii ''HTTPError'') msg (Some r))" ..
  then show "map_option last_failure_error_type
              (config_after (send_telegram_message e tok pl i w) i) =
              Some (Some (ascii ''HTTPError''))"
    using a assms(1) send_records_exception [where w = w and i = i and c = c and e = e
        and tok = tok and pl = pl
        and x = "RequestException (ascii ''HTTPError'') msg (Some r)"]
    by auto
next
  assume a: "v \<noteq> JNull \<and> (\<forall>xs. v \<noteq> JObj xs) \<and>
          fst (send_telegram_message e tok pl i w) = None"
  then have "\<exists>msg. fst (send_telegram_message_try e tok pl i w) =
          Some (OtherException (ascii ''AttributeError'') msg)"
    using assms(2-4) try_not_a_dict [where e = e and tok = tok and pl = pl and r = r
        and v = v and i = i and w = w] by auto
  then obtain msg where "fst (send_telegram_message_try e tok pl i w) =
          Some (OtherException (ascii ''AttributeError'') msg)" ..
  then show "map_option last_failure_error_type
              (config_after (send_telegram_message e tok pl i w) i) =
              Some (Some (ascii ''AttributeError''))"
    using a assms(1) send_records_exception [where w = w and i = i and c = c and e = e
        and tok = tok and pl = pl
        and x = "OtherException (ascii ''AttributeError'') msg"]
    by auto
qed

theorem only_ok_false_is_application_failure_witness:
  "MessagingServiceConfig_objects demo_failed_world 1 = Some demo_failed_config \<and>
   requests_post (demo_env (Inr demo_response_200_ok_zero)) (sendMessage_url (ascii ''TOKEN''))
     demo_payload 5 = Inr demo_response_200_ok_zero \<and>
   status_code demo_response_200_ok_zero < 400 \<and>
   json_method demo_response_200_ok_zero = Returns (JObj [(ascii ''ok'', JInt 0)]) \<and>
   map_of [(ascii ''ok'', JInt 0)] (ascii ''ok'') \<noteq> Some (JBool False) \<and>
   fst (send_telegram_message (demo_env (Inr demo_response_200_ok_zero)) (ascii ''TOKEN'')
          demo_payload 1 demo_failed_world) = None \<and>
   config_after
     (send_telegram_message (demo_env (Inr demo_response_200_ok_zero)) (ascii ''TOKEN'')
        demo_payload 1 demo_failed_world) 1 = Some demo_config \<and>
   json_method demo_response_200_not_ok = Returns json_chat_not_found \<and>
   fst (send_telegram_message (demo_env (Inr demo_response_200_not_ok)) (ascii ''TOKEN'')
          demo_payload 1 demo_world) = None \<and>
   map_option last_failure_error_type
     (config_after
        (send_telegram_message (demo_env (Inr demo_response_200_not_ok)) (ascii ''TOKEN'')
           demo_payload 1 demo_world) 1) = Some (Some (ascii ''HTTPError'')) \<and>
   json_method demo_response_200_list = Returns (JArr [JInt 1]) \<and>
   fst (send_telegram_message (demo_env (Inr demo_response_200_list)) (ascii ''TOKEN'')
          demo_payload 1 demo_world) = None \<and>
   map_option last_failure_error_type
     (config_after
        (send_telegram_message (demo_env (Inr demo_response_200_list)) (ascii ''TOKEN'')
           demo_payload 1 demo_world) 1) = Some (Some (ascii ''AttributeError''))"
proof -
  have cleared: "demo_save_error
     (demo_failed_config\<lparr>last_failure_timestamp := None,
                      last_failure_error_type := None,
                      last_failure_error_message := None,
                      last_failure_status_code := None,
                      last_failure_response_text := None,
                      last_failure_is_json := None\<rparr>) = None"
    by (simp add: demo_save_error_def demo_failed_config_def unencodable_def surrogate_def
          ascii_def)
  have same: "demo_failed_config\<lparr>last_failure_timestamp := None,
                      last_failure_error_type := None,
                      last_failure_error_message := None,
                      last_failure_status_code := None,
                      last_failure_response_text := None,
                      last_failure_is_json := None\<rparr> = demo_config"
    by (simp add: demo_failed_config_def demo_config_def)
  have returned:
    "fst (send_telegram_message (demo_env (Inr demo_response_200_not_ok)) (ascii ''TOKEN'')
          demo_payload 1 demo_world) = None"
    "fst (send_telegram_message (demo_env (Inr demo_response_200_list)) (ascii ''TOKEN'')
          demo_payload 1 demo_world) = None"
    unfolding demo_not_ok_run demo_list_run by simp_all
  have rows: "MessagingServiceConfig_objects demo_failed_world 1 = Some demo_failed_config"
    "MessagingServiceConfig_objects demo_world 1 = Some demo_config"
    by (simp_all add: demo_failed_world_def demo_world_def)
  have zero: "fst (send_telegram_message (demo_env (Inr demo_response_200_ok_zero))
          (ascii ''TOKEN'') demo_payload 1 demo_failed_world) = None \<and>
     config_after
       (send_telegram_message (demo_env (Inr demo_response_200_ok_zero)) (ascii ''TOKEN'')
          demo_payload 1 demo_failed_world) 1 = Some demo_config"
    using rows(1) cleared same
      only_ok_false_is_application_failure
          [where w = demo_failed_world and i = 1 and c = demo_failed_config
             and e = "demo_env (Inr demo_response_200_ok_zero)"
             and tok = "ascii ''TOKEN''" and pl = demo_payload
             and r = demo_response_200_ok_zero and v = "JObj [(ascii ''ok'', JInt 0)]"
             and kvs = "[(ascii ''ok'', JInt 0)]"]
    by (simp add: demo_env_def demo_response_200_ok_zero_def ascii_def)
  have not_ok: "map_option last_failure_error_type
     (config_after
        (send_telegram_message (demo_env (Inr demo_response_200_not_ok)) (ascii ''TOKEN'')
           demo_payload 1 demo_world) 1) = Some (Some (ascii ''HTTPError''))"
    using rows(2) returned(1)
      only_ok_false_is_application_failure
          [where w = demo_world and i = 1 and c = demo_config
             and e = "demo_env (Inr demo_response_200_not_ok)"
             and tok = "ascii ''TOKEN''" and pl = demo_payload
             and r = demo_response_200_not_ok and v = json_chat_not_found
             and kvs = "[(ascii ''ok'', JBool False),
                         (ascii ''description'', JStr (ascii ''chat not found''))]"]
    by (simp add: demo_env_def demo_response_200_not_ok_def json_chat_not_found_def ascii_def)
  have lst: "map_option last_failure_error_type
     (config_after
        (send_telegram_message (demo_env (Inr demo_response_200_list)) (ascii ''TOKEN'')
           demo_payload 1 demo_world) 1) = Some (Some (ascii ''AttributeError''))"
    using rows(2) returned(2)
      only_ok_false_is_application_failure
          [where w = demo_world and i = 1 and c = demo_config
             and e = "demo_env (Inr demo_response_200_list)"
             and tok = "ascii ''TOKEN''" and pl = demo_payload
             and r = demo_response_200_list and v = "JArr [JInt 1]"]
    by (simp add: demo_env_def demo_response_200_list_def)
  show ?thesis
    using rows(1) zero not_ok lst returned
    by (simp add: demo_env_def demo_response_200_ok_zero_def demo_response_200_not_ok_def
          demo_response_200_list_def ascii_def)
qed

end
